theory Spec2Isabelle
  imports Complex_Main "HOL-Library.Char_ord" "HOL-Library.List_Lexorder" "HOL-Library.AList"
begin

section \<open>Conventions of the embedding\<close>

text \<open>
  The loader works on pandas tables and Python dictionaries.  A table is a list of rows
  (a record per table), a dictionary is a map \<open>'k \<rightharpoonup> 'v\<close>, a Python \<open>float\<close> is a
  \<open>real\<close> (rounding is not modelled; the properties below only compare, copy, clamp and
  default values), a cell that \<open>pd.to_numeric(..., errors="coerce")\<close> turns into NaN is
  \<open>None\<close>.  Strings are byte strings; \<open>str.strip\<close>, \<open>str.upper\<close> and \<open>str.lower\<close> are
  modelled on ASCII.
\<close>

subsection \<open>Strings\<close>

definition is_space :: "char \<Rightarrow> bool" where
  "is_space c = (let k = (of_char c :: nat) in (9 \<le> k \<and> k \<le> 13) \<or> (28 \<le> k \<and> k \<le> 32))"

definition strip :: "string \<Rightarrow> string" where
  "strip s = rev (dropWhile is_space (rev (dropWhile is_space s)))"

definition upper_char :: "char \<Rightarrow> char" where
  "upper_char c =
     (case map_of (zip ''abcdefghijklmnopqrstuvwxyz'' ''ABCDEFGHIJKLMNOPQRSTUVWXYZ'') c of
        None \<Rightarrow> c | Some u \<Rightarrow> u)"

definition lower_char :: "char \<Rightarrow> char" where
  "lower_char c =
     (case map_of (zip ''ABCDEFGHIJKLMNOPQRSTUVWXYZ'' ''abcdefghijklmnopqrstuvwxyz'') c of
        None \<Rightarrow> c | Some l \<Rightarrow> l)"

definition upper :: "string \<Rightarrow> string" where
  "upper s = map upper_char s"

definition lower :: "string \<Rightarrow> string" where
  "lower s = map lower_char s"

text \<open>\<open>d.get(k, default)\<close> and \<open>d.setdefault(k, default)\<close>.\<close>

definition dget :: "('k \<rightharpoonup> 'v) \<Rightarrow> 'k \<Rightarrow> 'v \<Rightarrow> 'v" where
  "dget d k dflt = (case d k of None \<Rightarrow> dflt | Some v \<Rightarrow> v)"

definition setdefault :: "('k \<rightharpoonup> 'v) \<Rightarrow> 'k \<Rightarrow> 'v \<Rightarrow> ('k \<rightharpoonup> 'v)" where
  "setdefault d k dflt = (case d k of None \<Rightarrow> d(k \<mapsto> dflt) | Some v \<Rightarrow> d)"

text \<open>\<open>sorted(set(xs))\<close>.\<close>

definition sorted_set :: "('a::linorder) list \<Rightarrow> 'a list" where
  "sorted_set xs = sort (remdups xs)"

section \<open>param\_table.py\<close>

text \<open>
  \<open>_clean_str\<close> returns \<open>None\<close> for a missing value (\<open>None\<close>, NaN) and for a string that is
  empty once stripped; \<open>norm\<close> turns that into the empty string.
\<close>

definition clean_str :: "string option \<Rightarrow> string option" where
  "clean_str x = (case x of None \<Rightarrow> None
                  | Some v \<Rightarrow> (let s = strip v in if s = [] then None else Some s))"

definition norm :: "string option \<Rightarrow> string" where
  "norm x = (case clean_str x of None \<Rightarrow> [] | Some s \<Rightarrow> s)"

definition to_float :: "real option \<Rightarrow> real" where
  "to_float x = (case x of None \<Rightarrow> 0 | Some v \<Rightarrow> v)"

type_synonym PenaltyKey = "string \<times> string"
type_synonym PenaltyLookup = "PenaltyKey \<rightharpoonup> real"

record o_row =
  o_param :: "string option"
  o_indx1 :: "string option"
  o_indx2 :: "string option"
  o_value :: "real option"

record o_clean =
  oc_param :: string
  oc_indx1 :: string
  oc_indx2 :: string
  oc_value :: real

definition prepare_dat_o :: "o_row list \<Rightarrow> o_clean list" where
  "prepare_dat_o dat_o =
     map (\<lambda>r. \<lparr>oc_param = lower (norm (o_param r)), oc_indx1 = norm (o_indx1 r),
               oc_indx2 = norm (o_indx2 r), oc_value = to_float (o_value r)\<rparr>) dat_o"

definition penalty_rows :: "o_row list \<Rightarrow> o_clean list" where
  "penalty_rows dat_o =
     filter (\<lambda>r. oc_param r = ''penalty'' \<or> oc_param r = ''penality'') (prepare_dat_o dat_o)"

definition build_penalty_lookup :: "o_row list \<Rightarrow> PenaltyLookup" where
  "build_penalty_lookup dat_o =
     fold (\<lambda>r lookup. lookup((oc_indx1 r, oc_indx2 r) \<mapsto> oc_value r)) (penalty_rows dat_o) Map.empty"

definition penalty_value :: "PenaltyLookup \<Rightarrow> string \<Rightarrow> string \<Rightarrow> real" where
  "penalty_value lookup z0 e0 =
     (let z = norm (Some z0);
          e = norm (Some e0);
          val = dget lookup (z, e) 0;
          val = (if val \<le> 0 then dget lookup (z, []) 0 else val);
          val = (if val \<le> 0 then dget lookup ([], []) 0 else val)
      in val)"

text \<open>
  \<open>build_c_z\<close> with both domains inferred from the penalty rows, as \<open>load_inputs\<close> calls it:
  the rows of the \<open>c_z\<close> table, one per \<open>(z, e)\<close>.
\<close>

definition build_c_z :: "o_row list \<Rightarrow> (string \<times> string \<times> real) list" where
  "build_c_z dat_o =
     (let rows = penalty_rows dat_o;
          z_domain = sorted_set (filter (\<lambda>z. z \<noteq> []) (map oc_indx1 rows));
          e_inferred = sorted_set (filter (\<lambda>e. e \<noteq> []) (map oc_indx2 rows));
          e_domain = (if e_inferred = [] then [[]] else e_inferred);
          lookup = build_penalty_lookup dat_o
      in concat (map (\<lambda>z. map (\<lambda>e. (z, e, penalty_value lookup z e)) e_domain) z_domain))"

text \<open>The chain of the three lookups that \<open>penalty_value\<close> walks through.\<close>

definition penalty_chain :: "PenaltyLookup \<Rightarrow> string \<Rightarrow> string \<Rightarrow> real list" where
  "penalty_chain lookup z e =
     [dget lookup (norm (Some z), norm (Some e)) 0,
      dget lookup (norm (Some z), []) 0,
      dget lookup ([], []) 0]"

section \<open>data\_loading.py: fuel labels, time, consumption\<close>

definition normalize_fuel_label :: "string \<Rightarrow> string" where
  "normalize_fuel_label raw =
     (let s = upper (strip raw) in
      if s \<in> set [''GAS'', ''NATURAL_GAS'', ''NATURALGAS'', ''NG''] then ''G''
      else if s \<in> set [''HYDROGEN'', ''H2''] then ''H''
      else if s \<in> set [''COAL''] then ''C''
      else s)"

text \<open>\<open>astype(int)\<close> on a float column: a cast to a signed 64-bit integer.  It truncates
  towards zero; a value outside the 64-bit range comes out as the least 64-bit integer
  (the result of the cast on x86-64).\<close>

definition astype_int :: "real \<Rightarrow> int" where
  "astype_int x =
     (let t = (if 0 \<le> x then \<lfloor>x\<rfloor> else \<lceil>x\<rceil>) in
      if - 9223372036854775808 \<le> t \<and> t \<le> 9223372036854775807 then t
      else - 9223372036854775808)"

record ts_row =
  ts_y :: "real option"
  ts_h :: "real option"
  ts_scaleup :: "real option"

definition first_positive :: "real list \<Rightarrow> real \<Rightarrow> real" where
  "first_positive vals dflt = (case List.find (\<lambda>v. 0 < v) vals of None \<Rightarrow> dflt | Some v \<Rightarrow> v)"

definition extract_time_domains :: "ts_row list \<Rightarrow> int list \<times> int list \<times> (int \<rightharpoonup> real)" where
  "extract_time_domains df_t =
     (if df_t = [] then ([], [], Map.empty)
      else
        let y_values = sorted_set (map astype_int (List.map_filter ts_y df_t));
            h_values = sorted_set (map astype_int (List.map_filter ts_h df_t));
            scale_map = fold (\<lambda>h m.
                let rows = filter (\<lambda>r. ts_h r = Some (real_of_int h)) df_t;
                    vals = List.map_filter ts_scaleup rows
                in m(h \<mapsto> first_positive vals 1)) h_values Map.empty
        in (y_values, h_values, scale_map))"

text \<open>
  A wide table (consumption.csv, production.csv): the hour columns found by
  \<open>_hour_columns\<close>, as integers in increasing order, and the rows; \<open>wr_hours\<close> holds a
  row's cells under the hour columns, in the same order.  \<open>wr_y\<close> is the year after
  \<open>pd.to_numeric(..., errors="coerce").astype("Int64")\<close>, \<open>None\<close> for \<open><NA>\<close>.
\<close>

record wide_row =
  wr_n :: string
  wr_f :: string
  wr_y :: "int option"
  wr_mc :: "real option"
  wr_lb :: "real option"
  wr_hours :: "real option list"

record wide_table =
  hour_cols :: "int list"
  wrows :: "wide_row list"

text \<open>
  The year, hour and fuel domains that \<open>_extract_consumption_data\<close> returns next to
  \<open>dmd\<close>: every kept row adds its year (\<open>y_values.add(y)\<close>), its fuel and the hours.
\<close>

definition consumption_kept :: "wide_row \<Rightarrow> bool" where
  "consumption_kept row = (strip (wr_n row) \<noteq> [] \<and> strip (wr_f row) \<noteq> [] \<and> wr_y row \<noteq> None)"

definition consumption_y_values :: "wide_table \<Rightarrow> int list" where
  "consumption_y_values df_c =
     (if wrows df_c = [] then []
      else sorted_set (List.map_filter wr_y (filter consumption_kept (wrows df_c))))"

section \<open>data\_loading.py: production\<close>

text \<open>
  \<open>cap_p\<close> and \<open>c_p\<close> are iterated over (\<open>cap_p.items()\<close>, \<open>c_p.keys()\<close>), so they are
  dictionaries in insertion order: association lists written with \<open>AList.update\<close>.
\<close>

type_synonym key3 = "string \<times> string \<times> int"
type_synonym key4 = "string \<times> string \<times> int \<times> int"

record prod_state =
  cap_p :: "(key4 \<times> real) list"
  c_p :: "(key3 \<times> real) list"
  lb_p :: "key4 \<rightharpoonup> real"
  p_y_values :: "int list"
  p_h_values :: "int list"
  p_f_values :: "string list"

definition prod_hour_step :: "string \<Rightarrow> string \<Rightarrow> int \<Rightarrow> real \<Rightarrow> int \<times> real option \<Rightarrow> prod_state \<Rightarrow> prod_state" where
  "prod_hour_step n f y lb_scalar hc st =
     st\<lparr>cap_p := AList.update (n, f, y, fst hc) (to_float (snd hc)) (cap_p st),
        lb_p := (lb_p st)((n, f, y, fst hc) \<mapsto> lb_scalar),
        p_h_values := fst hc # p_h_values st\<rparr>"

text \<open>One row of the loop.  The source adds the fuel to \<open>f_values\<close> but never the year to
  \<open>y_values\<close>.\<close>

definition prod_row_step :: "int list \<Rightarrow> wide_row \<Rightarrow> prod_state \<Rightarrow> prod_state" where
  "prod_row_step hcols row st =
     (let n = strip (wr_n row); f = strip (wr_f row) in
      case wr_y row of
        None \<Rightarrow> st
      | Some y \<Rightarrow>
          if n = [] \<or> f = [] then st
          else
            let st1 = st\<lparr>p_f_values := f # p_f_values st,
                          c_p := AList.update (n, f, y) (to_float (wr_mc row)) (c_p st)\<rparr>
            in fold (prod_hour_step n f y (to_float (wr_lb row))) (zip hcols (wr_hours row)) st1)"

text \<open>The carry-forward pass: \<open>c_p(n,f,y) = c_p(n,f,2030)\<close> for the years after the second.\<close>

definition carry_nf :: "int list \<Rightarrow> string \<Rightarrow> string \<Rightarrow> (key3 \<times> real) list \<Rightarrow> (key3 \<times> real) list" where
  "carry_nf ys n f cp =
     (case map_of cp (n, f, 2030) of
        None \<Rightarrow> cp
      | Some ref_val \<Rightarrow> fold (\<lambda>y c. AList.update (n, f, y) ref_val c) ys cp)"

definition carry_2030_extract :: "int list \<Rightarrow> (key3 \<times> real) list \<Rightarrow> (key3 \<times> real) list" where
  "carry_2030_extract ordered_years cp =
     (if 3 \<le> length ordered_years \<and> 2030 \<in> set ordered_years then
        fold (\<lambda>n c.
               fold (\<lambda>f c'. carry_nf (drop 2 ordered_years) n f c')
                    (sorted_set (map (\<lambda>k. fst (snd k)) (filter (\<lambda>k. fst k = n) (map fst c)))) c)
             (sorted_set (map (\<lambda>k. fst k) (map fst cp))) cp
      else cp)"

definition clip_step :: "key4 \<times> real \<Rightarrow> (key4 \<rightharpoonup> real) \<Rightarrow> (key4 \<rightharpoonup> real)" where
  "clip_step kv lb = lb(fst kv \<mapsto> min (dget lb (fst kv) 0) (snd kv))"

definition clip_lb :: "(key4 \<times> real) list \<Rightarrow> (key4 \<rightharpoonup> real) \<Rightarrow> (key4 \<rightharpoonup> real)" where
  "clip_lb cap lb = fold clip_step cap lb"

definition prod_init :: prod_state where
  "prod_init = \<lparr>cap_p = [], c_p = [], lb_p = Map.empty, p_y_values = [], p_h_values = [],
                p_f_values = []\<rparr>"

definition extract_production_data :: "wide_table \<Rightarrow> prod_state" where
  "extract_production_data df_p =
     (if wrows df_p = [] then prod_init
      else
        let st = fold (prod_row_step (hour_cols df_p)) (wrows df_p) prod_init;
            ordered_years = sorted_set (p_y_values st);
            st = st\<lparr>c_p := carry_2030_extract ordered_years (c_p st)\<rparr>;
            st = st\<lparr>lb_p := clip_lb (cap_p st) (lb_p st)\<rparr>
        in st\<lparr>p_y_values := sorted_set (p_y_values st),
              p_h_values := sorted_set (p_h_values st),
              p_f_values := sorted_set (p_f_values st)\<rparr>)"

text \<open>
  The part of \<open>load_inputs\<close> that fixes the year domain and re-applies the
  carry-forward on it: \<open>final_y_values\<close> is the union of the years of the timeseries, of
  the consumption rows and of \<open>y_prod\<close>, the years returned by the production extractor.
\<close>

definition carry_2030_final :: "int list \<Rightarrow> (key3 \<times> real) list \<Rightarrow> (key3 \<times> real) list" where
  "carry_2030_final final_y_values cp =
     (if 3 \<le> length final_y_values \<and> 2030 \<in> set final_y_values then
        let cp_keys = map fst cp;
            cp_nodes = sorted_set (map (\<lambda>k. fst k) cp_keys);
            cp_fuels = sorted_set (map (\<lambda>k. fst (snd k)) cp_keys)
        in fold (\<lambda>n c. fold (\<lambda>f c'. carry_nf (drop 2 final_y_values) n f c') cp_fuels c) cp_nodes cp
      else cp)"

definition load_inputs_c_p :: "ts_row list \<Rightarrow> wide_table \<Rightarrow> wide_table \<Rightarrow> int list \<times> (key3 \<times> real) list" where
  "load_inputs_c_p dat_t dat_consumption dat_production =
     (let y_values = fst (extract_time_domains dat_t);
          y_dmd = consumption_y_values dat_consumption;
          st = extract_production_data dat_production;
          y_prod = p_y_values st;
          final_y_values = sorted_set (y_values @ y_dmd @ y_prod)
      in (final_y_values, carry_2030_final final_y_values (c_p st)))"

text \<open>Invariant of the production row loop: \<open>cap_p\<close> has no duplicate key and \<open>lb_p\<close> has
  exactly the keys of \<open>cap_p\<close>.\<close>

definition prod_inv :: "prod_state \<Rightarrow> bool" where
  "prod_inv st = (distinct (map fst (cap_p st)) \<and> dom (lb_p st) = fst ` set (cap_p st))"

definition carried :: "int list \<Rightarrow> string \<Rightarrow> string \<Rightarrow> real \<Rightarrow> (key3 \<times> real) list \<Rightarrow> bool" where
  "carried ys n f v c = (\<forall>y \<in> set ys. map_of c (n, f, y) = Some v)"

text \<open>A scenario whose only years are those of production.csv: rows for node N1 and fuel G
  in 2025, 2028, 2030, 2035 and 2040 with marginal costs 1 to 5, no timeseries.csv and no
  consumption.csv.\<close>

definition prod_2030_rows :: "wide_row list" where
  "prod_2030_rows =
     map (\<lambda>(y, mc). \<lparr>wr_n = ''N1'', wr_f = ''G'', wr_y = Some y, wr_mc = Some mc,
                        wr_lb = Some 0, wr_hours = [Some 10]\<rparr>)
         [(2025, 1), (2028, 2), (2030, 3), (2035, 4), (2040, 5)]"

definition prod_2030_table :: wide_table where
  "prod_2030_table = \<lparr>hour_cols = [1], wrows = prod_2030_rows\<rparr>"

definition empty_wide :: wide_table where
  "empty_wide = \<lparr>hour_cols = [], wrows = []\<rparr>"

section \<open>data\_loading.py: regasification\<close>
















section \<open>data\_loading.py: arcs\<close>

record arc_row =
  ar_a :: string
  ar_start :: string
  ar_end :: string
  ar_f :: string
  ar_cap :: "real option"
  ar_len :: "real option"
  ar_off :: "real option"
  ar_cal_b :: "real option"
  ar_cal_c :: "real option"
  ar_cal_l :: "real option"
  ar_cal_r :: "real option"
  ar_cal_x :: "real option"
  ar_bidir :: "real option"

text \<open>A row of \<open>work\<close>: keys stripped, fuel label normalised, numeric cells coerced with
  \<open>fillna(0.0)\<close>.\<close>

record arc_work =
  aw_a :: string
  aw_start :: string
  aw_end :: string
  aw_f :: string
  aw_cap :: real
  aw_len :: real
  aw_off :: real
  aw_cal_b :: real
  aw_cal_c :: real
  aw_cal_l :: real
  aw_cal_r :: real
  aw_cal_x :: real
  aw_bidir :: real

definition arc_work_row :: "arc_row \<Rightarrow> arc_work" where
  "arc_work_row r =
     \<lparr>aw_a = strip (ar_a r), aw_start = strip (ar_start r), aw_end = strip (ar_end r),
      aw_f = normalize_fuel_label (ar_f r),
      aw_cap = to_float (ar_cap r), aw_len = to_float (ar_len r), aw_off = to_float (ar_off r),
      aw_cal_b = to_float (ar_cal_b r), aw_cal_c = to_float (ar_cal_c r),
      aw_cal_l = to_float (ar_cal_l r), aw_cal_r = to_float (ar_cal_r r),
      aw_cal_x = to_float (ar_cal_x r), aw_bidir = to_float (ar_bidir r)\<rparr>"

definition arc_work_rows :: "arc_row list \<Rightarrow> arc_work list" where
  "arc_work_rows df_a =
     filter (\<lambda>w. aw_a w \<noteq> [] \<and> aw_start w \<noteq> [] \<and> aw_end w \<noteq> [] \<and> aw_f w \<noteq> [])
            (map arc_work_row df_a)"

text \<open>\<open>dat_o_norm\<close> and the lookup \<open>_o_value\<close>: the value of the first row with the given
  parameter and indices, else the default.\<close>

definition blank_token :: "string \<Rightarrow> string" where
  "blank_token s = (if s \<in> set [''NAN'', ''NONE'', ''NULL''] then [] else s)"

definition str_or_empty :: "string option \<Rightarrow> string" where
  "str_or_empty x = (case x of None \<Rightarrow> [] | Some s \<Rightarrow> s)"

definition dat_o_norm :: "o_row list \<Rightarrow> o_clean list" where
  "dat_o_norm dat_o =
     map (\<lambda>r. \<lparr>oc_param = lower (strip (str_or_empty (o_param r))),
               oc_indx1 = blank_token (upper (strip (str_or_empty (o_indx1 r)))),
               oc_indx2 = blank_token (upper (strip (str_or_empty (o_indx2 r)))),
               oc_value = to_float (o_value r)\<rparr>) dat_o"

definition o_value_of :: "o_clean list \<Rightarrow> string \<Rightarrow> string \<Rightarrow> string \<Rightarrow> real \<Rightarrow> real" where
  "o_value_of tbl param indx1 indx2 dflt =
     (case filter (\<lambda>r. oc_param r = lower param \<and> oc_indx1 r = upper (strip indx1)
                        \<and> oc_indx2 r = upper (strip indx2)) tbl of
        [] \<Rightarrow> dflt
      | r # _ \<Rightarrow> oc_value r)"

text \<open>\<open>v if v > 0 else fallback\<close>, the pattern of every per-fuel lookup.\<close>

definition or_default :: "real \<Rightarrow> real \<Rightarrow> real" where
  "or_default v fallback = (if v \<le> 0 then fallback else v)"

datatype error = ValueError_PipeLenStd | ValueError_YearStep | ValueError_Unpack

record arc_state =
  a_s :: "string \<times> string \<rightharpoonup> int"
  a_e :: "string \<times> string \<rightharpoonup> int"
  opp :: "string \<times> string \<rightharpoonup> int"
  is_bid :: "string \<rightharpoonup> int"
  opp_map :: "string \<rightharpoonup> string"
  cap_a :: "key3 \<rightharpoonup> real"
  c_a :: "key3 \<rightharpoonup> real"
  c_ax :: "key3 \<rightharpoonup> real"
  c_ab :: "key3 \<rightharpoonup> real"
  c_ar :: "string \<times> string \<times> string \<times> int \<rightharpoonup> real"
  f_ar :: "string \<times> string \<times> string \<times> int \<rightharpoonup> real"
  f_ab :: "string \<times> int \<rightharpoonup> real"
  e_a :: "string \<times> string \<rightharpoonup> real"

definition arc_state_empty :: arc_state where
  "arc_state_empty =
     \<lparr>a_s = Map.empty, a_e = Map.empty, opp = Map.empty, is_bid = Map.empty,
      opp_map = Map.empty, cap_a = Map.empty, c_a = Map.empty, c_ax = Map.empty,
      c_ab = Map.empty, c_ar = Map.empty, f_ar = Map.empty, f_ab = Map.empty, e_a = Map.empty\<rparr>"

text \<open>What the loops of \<open>_extract_arc_data\<close> read and never change.\<close>

record arc_env =
  env_work :: "arc_work list"
  env_o :: "o_clean list"
  env_y_values :: "int list"
  env_all_fuels :: "string list"
  env_a_values :: "string list"
  env_vola2 :: "string \<rightharpoonup> real"
  env_loss_max :: real
  env_offsh_mult :: real
  env_pipe_len_std :: real
  env_year_step :: real

definition rows_of :: "arc_env \<Rightarrow> string \<Rightarrow> arc_work list" where
  "rows_of env a = filter (\<lambda>w. aw_a w = a) (env_work env)"

definition arc_endpoints :: "arc_env \<Rightarrow> string \<rightharpoonup> string \<times> string" where
  "arc_endpoints env =
     fold (\<lambda>a m. case rows_of env a of [] \<Rightarrow> m
                 | r # _ \<Rightarrow> m(a \<mapsto> (strip (aw_start r), strip (aw_end r))))
          (env_a_values env) Map.empty"

definition opp_pair :: "(string \<rightharpoonup> string \<times> string) \<Rightarrow> string \<times> string \<Rightarrow> arc_state \<Rightarrow> arc_state" where
  "opp_pair ends p st =
     (case ends (fst p) of
        None \<Rightarrow> st
      | Some (ni, mi) \<Rightarrow>
          (if snd p = fst p then st
           else (case ends (snd p) of
                   None \<Rightarrow> st
                 | Some (no, mo) \<Rightarrow>
                     (if ni = mo \<and> mi = no then st\<lparr>opp := (opp st)(p \<mapsto> 1)\<rparr> else st))))"

definition opp_map_step :: "arc_env \<Rightarrow> string \<Rightarrow> arc_state \<Rightarrow> arc_state" where
  "opp_map_step env a st =
     (let opp_candidates = sort (filter (\<lambda>ao. opp st (a, ao) = Some 1) (env_a_values env))
      in st\<lparr>opp_map := (opp_map st)(a \<mapsto> (case opp_candidates of [] \<Rightarrow> [] | ao # _ \<Rightarrow> ao))\<rparr>)"

text \<open>The row loop of one arc; \<open>cal_x_by_f\<close>, \<open>cal_b_by_f\<close> and \<open>cal_r_by_f\<close> are local to
  the arc.\<close>

record arc_cals =
  cal_x_by_f :: "string \<rightharpoonup> real"
  cal_b_by_f :: "string \<rightharpoonup> real"
  cal_r_by_f :: "string \<rightharpoonup> real"

definition arc_row_year :: "string \<Rightarrow> string \<Rightarrow> real \<Rightarrow> real \<Rightarrow> int \<Rightarrow> arc_state \<Rightarrow> arc_state" where
  "arc_row_year a f cap_val c_a_val y st =
     st\<lparr>cap_a := (cap_a st)((a, f, y) \<mapsto> cap_val), c_a := (c_a st)((a, f, y) \<mapsto> c_a_val)\<rparr>"

definition arc_row_step ::
  "arc_env \<Rightarrow> string \<Rightarrow> real \<Rightarrow> real \<Rightarrow> arc_work \<Rightarrow> arc_cals \<times> arc_state \<Rightarrow> arc_cals \<times> arc_state" where
  "arc_row_step env a len_agg off_agg row cs =
     (let f = strip (aw_f row);
          cap_val = max 0 (aw_cap row);
          cal_b = or_default (aw_cal_b row) 1;
          cal_c = or_default (aw_cal_c row) 1;
          cal_l = or_default (aw_cal_l row) 1;
          cal_x = or_default (aw_cal_x row) 1;
          cal_r = or_default (aw_cal_r row) 1;
          cals = (fst cs)\<lparr>cal_b_by_f := (cal_b_by_f (fst cs))(f \<mapsto> cal_b),
                          cal_x_by_f := (cal_x_by_f (fst cs))(f \<mapsto> cal_x),
                          cal_r_by_f := (cal_r_by_f (fst cs))(f \<mapsto> cal_r)\<rparr>;
          bf_pipe_e = or_default (o_value_of (env_o env) ''bfpipe'' f [] 0)
                                 (o_value_of (env_o env) ''bfpipe'' [] [] 0);
          bl_pipe_e = or_default (o_value_of (env_o env) ''blpipe'' f [] 0)
                                 (o_value_of (env_o env) ''blpipe'' [] [] 0);
          vola2_e = dget (env_vola2 env) f 1;
          c_a_val = bf_pipe_e * vola2_e * (len_agg + env_offsh_mult env * off_agg) * cal_c
                      / env_pipe_len_std env;
          e_a_val = max (1 - env_loss_max env)
                        (1 - bl_pipe_e * len_agg * cal_l / env_pipe_len_std env);
          st = (snd cs)\<lparr>e_a := (e_a (snd cs))((a, f) \<mapsto> e_a_val)\<rparr>
      in (cals, fold (arc_row_year a f cap_val c_a_val) (env_y_values env) st))"

definition arc_fuel_step ::
  "arc_env \<Rightarrow> string \<Rightarrow> real \<Rightarrow> real \<Rightarrow> arc_cals \<Rightarrow> string \<Rightarrow> arc_state \<Rightarrow> arc_state" where
  "arc_fuel_step env a len_agg off_agg cals f st =
     (let bi_pipe_e = or_default (o_value_of (env_o env) ''bipipe'' f [] 0)
                                 (o_value_of (env_o env) ''bipipe'' [] [] 0);
          cal_x = dget (cal_x_by_f cals) f 1;
          c_ax_val = bi_pipe_e * (len_agg + env_offsh_mult env * off_agg) * cal_x
                       / env_pipe_len_std env / env_year_step env;
          bidir_var_e = or_default (o_value_of (env_o env) ''bidir'' ''VAR'' f 0)
                                   (o_value_of (env_o env) ''bidir'' ''VAR'' [] 0);
          cal_b = dget (cal_b_by_f cals) f 1;
          c_ab_val = bidir_var_e * (len_agg + off_agg) * cal_b
                       / env_pipe_len_std env / env_year_step env
      in fold (\<lambda>y s. s\<lparr>c_ax := (c_ax s)((a, f, y) \<mapsto> c_ax_val),
                        c_ab := (c_ab s)((a, f, y) \<mapsto> c_ab_val)\<rparr>) (env_y_values env) st)"

definition arc_repurp_step ::
  "arc_env \<Rightarrow> string \<Rightarrow> real \<Rightarrow> real \<Rightarrow> arc_cals \<Rightarrow> string \<times> string \<Rightarrow> arc_state \<Rightarrow> arc_state" where
  "arc_repurp_step env a len_agg off_agg cals ef st =
     (let e = fst ef; f = snd ef;
          cal_r = dget (cal_r_by_f cals) e 1;
          repurp_var = or_default (o_value_of (env_o env) ''repurparc'' e f 0)
                                  (o_value_of (env_o env) ''repurparc'' [] [] 0);
          repurp_var = (if upper e = upper f then 0 else repurp_var);
          repurp_fix = o_value_of (env_o env) ''repurparc'' ''FIX'' f 0;
          repurp_fix_val = repurp_fix * cal_r / env_year_step env;
          repurp_var_val = repurp_var * (len_agg + env_offsh_mult env * off_agg) * cal_r
                             / env_pipe_len_std env / env_year_step env
      in fold (\<lambda>y s. s\<lparr>c_ar := (c_ar s)((a, e, f, y) \<mapsto> repurp_var_val),
                        f_ar := (f_ar s)((a, e, f, y) \<mapsto> repurp_fix_val)\<rparr>) (env_y_values env) st)"

definition arc_one :: "arc_env \<Rightarrow> string \<Rightarrow> arc_state \<Rightarrow> arc_state" where
  "arc_one env a st =
     (case rows_of env a of
        [] \<Rightarrow> st
      | r0 # _ \<Rightarrow>
          let rows_a = rows_of env a;
              n_start = strip (aw_start r0);
              n_end = strip (aw_end r0);
              st = st\<lparr>a_s := (a_s st)((a, n_start) \<mapsto> 1), a_e := (a_e st)((a, n_end) \<mapsto> 1)\<rparr>;
              len_agg = sum_list (map aw_len rows_a);
              off_agg_raw = sum_list (map aw_off rows_a);
              off_agg = min len_agg off_agg_raw;
              cs = fold (arc_row_step env a len_agg off_agg) rows_a
                     (\<lparr>cal_x_by_f = Map.empty, cal_b_by_f = Map.empty, cal_r_by_f = Map.empty\<rparr>, st);
              cals = fst cs;
              st = snd cs;
              st = st\<lparr>is_bid := (is_bid st)(a \<mapsto> (if 0 < sum_list (map aw_bidir rows_a) then 1 else 0))\<rparr>;
              st = fold (arc_fuel_step env a len_agg off_agg cals) (env_all_fuels env) st;
              st = fold (\<lambda>e s. fold (\<lambda>f. arc_repurp_step env a len_agg off_agg cals (e, f))
                                       (env_all_fuels env) s) (env_all_fuels env) st;
              bidir_fix = o_value_of (env_o env) ''bidir'' ''FIX'' [] 0
          in fold (\<lambda>y s. s\<lparr>f_ab := (f_ab s)((a, y) \<mapsto> bidir_fix / env_year_step env)\<rparr>)
                  (env_y_values env) st)"

text \<open>The state before the propagation passes: opposite pairs, representative opposite,
  then the per-arc values.\<close>

definition arc_build :: "arc_env \<Rightarrow> arc_state" where
  "arc_build env =
     (let ends = arc_endpoints env;
          st = fold (\<lambda>ai s. fold (\<lambda>ao. opp_pair ends (ai, ao)) (env_a_values env) s)
                    (env_a_values env) arc_state_empty;
          st = fold (opp_map_step env) (env_a_values env) st
      in fold (arc_one env) (env_a_values env) st)"

text \<open>The propagation pass from an arc to its opposite; the tolerance is \<open>1e-5\<close>.\<close>

definition prop_copy :: "string \<times> string \<times> string \<times> int \<Rightarrow> arc_state \<Rightarrow> arc_state" where
  "prop_copy q st =
     (case q of (ai, ao, f, y) \<Rightarrow>
        if 0 < dget (c_a st) (ai, f, y) 0 \<and> dget (c_a st) (ao, f, y) 0 \<le> 1 / 100000 then
          st\<lparr>c_a := (c_a st)((ao, f, y) \<mapsto> dget (c_a st) (ai, f, y) 0),
             c_ax := (c_ax st)((ao, f, y) \<mapsto> dget (c_ax st) (ai, f, y) 0),
             c_ab := (c_ab st)((ao, f, y) \<mapsto> dget (c_ab st) (ai, f, y) 0),
             f_ab := (f_ab st)((ao, y) \<mapsto> dget (f_ab st) (ai, y) 0),
             e_a := (e_a st)((ao, f) \<mapsto> dget (e_a st) (ai, f) (dget (e_a st) (ao, f) 1)),
             is_bid := (is_bid st)(ao \<mapsto> dget (is_bid st) ai (dget (is_bid st) ao 0))\<rparr>
        else st)"

definition prop_pair :: "string list \<Rightarrow> int list \<Rightarrow> string \<times> string \<Rightarrow> arc_state \<Rightarrow> arc_state" where
  "prop_pair F Y p st =
     (if dget (opp st) p 0 \<noteq> 1 then st
      else fold (\<lambda>f s. fold (\<lambda>y. prop_copy (fst p, snd p, f, y)) Y s) F st)"

definition prop_pass :: "string list \<Rightarrow> string list \<Rightarrow> int list \<Rightarrow> arc_state \<Rightarrow> arc_state" where
  "prop_pass A F Y st = fold (\<lambda>ai s. fold (\<lambda>ao. prop_pair F Y (ai, ao)) A s) A st"

definition prop_ar_copy :: "string \<times> string \<times> string \<times> string \<times> int \<Rightarrow> arc_state \<Rightarrow> arc_state" where
  "prop_ar_copy q st =
     (case q of (ai, ao, e, f, y) \<Rightarrow>
        let src_car = dget (c_ar st) (ai, e, f, y) 0;
            dst_car = dget (c_ar st) (ao, e, f, y) 0;
            src_far = dget (f_ar st) (ai, e, f, y) 0;
            dst_far = dget (f_ar st) (ao, e, f, y) 0
        in if (0 < src_car \<and> dst_car \<le> 1 / 100000) \<or> (0 < src_far \<and> dst_far \<le> 1 / 100000)
           then st\<lparr>c_ar := (c_ar st)((ao, e, f, y) \<mapsto> src_car),
                   f_ar := (f_ar st)((ao, e, f, y) \<mapsto> src_far)\<rparr>
           else st)"

definition prop_ar_pair :: "string list \<Rightarrow> int list \<Rightarrow> string \<times> string \<Rightarrow> arc_state \<Rightarrow> arc_state" where
  "prop_ar_pair F Y p st =
     (if dget (opp st) p 0 \<noteq> 1 then st
      else fold (\<lambda>e s. fold (\<lambda>f s. fold (\<lambda>y. prop_ar_copy (fst p, snd p, e, f, y)) Y s) F s) F st)"

definition prop_ar_pass :: "string list \<Rightarrow> string list \<Rightarrow> int list \<Rightarrow> arc_state \<Rightarrow> arc_state" where
  "prop_ar_pass A F Y st = fold (\<lambda>ai s. fold (\<lambda>ao. prop_ar_pair F Y (ai, ao)) A s) A st"

text \<open>The defaulting pass over the full domain.\<close>

definition default_afy :: "string \<times> string \<times> int \<Rightarrow> arc_state \<Rightarrow> arc_state" where
  "default_afy k st =
     st\<lparr>cap_a := setdefault (cap_a st) k 0, c_a := setdefault (c_a st) k 0,
        c_ax := setdefault (c_ax st) k 0, c_ab := setdefault (c_ab st) k 0,
        f_ab := setdefault (f_ab st) (fst k, snd (snd k)) 0\<rparr>"

definition default_af :: "int list \<Rightarrow> string \<times> string \<Rightarrow> arc_state \<Rightarrow> arc_state" where
  "default_af Y af st =
     fold (\<lambda>y. default_afy (fst af, snd af, y)) Y (st\<lparr>e_a := setdefault (e_a st) af 1\<rparr>)"

definition default_aefy :: "string \<times> string \<times> string \<times> int \<Rightarrow> arc_state \<Rightarrow> arc_state" where
  "default_aefy k st = st\<lparr>c_ar := setdefault (c_ar st) k 0, f_ar := setdefault (f_ar st) k 0\<rparr>"

definition default_a :: "string list \<Rightarrow> int list \<Rightarrow> string \<Rightarrow> arc_state \<Rightarrow> arc_state" where
  "default_a F Y a st =
     (let st = st\<lparr>is_bid := setdefault (is_bid st) a 0\<rparr>;
          st = fold (\<lambda>f. default_af Y (a, f)) F st
      in fold (\<lambda>e s. fold (\<lambda>f s. fold (\<lambda>y. default_aefy (a, e, f, y)) Y s) F s) F st)"

definition default_pass :: "string list \<Rightarrow> string list \<Rightarrow> int list \<Rightarrow> arc_state \<Rightarrow> arc_state" where
  "default_pass A F Y st = fold (default_a F Y) A st"

text \<open>Self-repurposing is set to zero last.\<close>

definition zero_self :: "string \<times> string \<times> int \<Rightarrow> arc_state \<Rightarrow> arc_state" where
  "zero_self k st =
     (case k of (a, e, y) \<Rightarrow>
        st\<lparr>c_ar := (c_ar st)((a, e, e, y) \<mapsto> 0), f_ar := (f_ar st)((a, e, e, y) \<mapsto> 0)\<rparr>)"

definition zero_pass :: "string list \<Rightarrow> string list \<Rightarrow> int list \<Rightarrow> arc_state \<Rightarrow> arc_state" where
  "zero_pass A F Y st =
     fold (\<lambda>a s. fold (\<lambda>e s. fold (\<lambda>y. zero_self (a, e, y)) Y s) F s) A st"

definition opp_default_pass :: "string list \<Rightarrow> arc_state \<Rightarrow> arc_state" where
  "opp_default_pass A st =
     fold (\<lambda>ai s.
            (let s = fold (\<lambda>ao s'. s'\<lparr>opp := setdefault (opp s') (ai, ao) 0\<rparr>) A s
             in s\<lparr>opp_map := setdefault (opp_map s) ai []\<rparr>)) A st"

definition arc_finish :: "string list \<Rightarrow> string list \<Rightarrow> int list \<Rightarrow> arc_state \<Rightarrow> arc_state" where
  "arc_finish A F Y st =
     opp_default_pass A (zero_pass A F Y (default_pass A F Y (prop_ar_pass A F Y (prop_pass A F Y st))))"

text \<open>
  The result of \<open>_extract_arc_data\<close>.  The early return for an empty table is a tuple of
  15 empty values; the return at the end has 16 (\<open>e_a\<close> is the one the early return
  leaves out).
\<close>

datatype arc_result =
  Ret15
  | Ret16 (ret_a_values: "string list") (ret_arcs: arc_state) (ret_arc_nodes: "string list")
      (ret_arc_fuels: "string list")

definition arc_env_of ::
  "arc_row list \<Rightarrow> o_row list \<Rightarrow> int list \<Rightarrow> string list \<Rightarrow> (string \<rightharpoonup> real) \<Rightarrow> real \<Rightarrow> arc_env" where
  "arc_env_of df_a dat_o y_values e_values vola2 loss_max =
     (let work = arc_work_rows df_a;
          tbl = dat_o_norm dat_o
      in \<lparr>env_work = work, env_o = tbl, env_y_values = y_values,
          env_all_fuels = sorted_set (e_values @ map aw_f work),
          env_a_values = sorted_set (map aw_a work),
          env_vola2 = vola2, env_loss_max = loss_max,
          env_offsh_mult = max 0 (o_value_of tbl ''offshmult'' [] [] 0 - 1),
          env_pipe_len_std = o_value_of tbl ''pipe'' ''LEN'' ''STD'' 0,
          env_year_step = o_value_of tbl ''yearstep'' [] [] 0\<rparr>)"

definition extract_arc_data ::
  "arc_row list \<Rightarrow> o_row list \<Rightarrow> int list \<Rightarrow> string list \<Rightarrow> (string \<rightharpoonup> real) \<Rightarrow> real
     \<Rightarrow> error + arc_result" where
  "extract_arc_data df_a dat_o y_values e_values vola2 loss_max =
     (if df_a = [] then Inr Ret15
      else
        let env = arc_env_of df_a dat_o y_values e_values vola2 loss_max in
        if env_pipe_len_std env \<le> 0 then Inl ValueError_PipeLenStd
        else if env_year_step env \<le> 0 then Inl ValueError_YearStep
        else
          Inr (Ret16 (env_a_values env)
                 (arc_finish (env_a_values env) (env_all_fuels env) y_values (arc_build env))
                 (sorted_set (map aw_start (env_work env) @ map aw_end (env_work env)))
                 (sorted_set (map aw_f (env_work env)))))"


text \<open>Two scenarios with arcs.  The first has one pipe described in both directions:
  \<open>A1\<close> from X to Y carrying G (length 5, flagged bidirectional) and \<open>A2\<close> from Y to X
  with a row for H only; other.csv gives \<open>Pipe,Len,Std = 1\<close>, \<open>YearStep = 1\<close>,
  \<open>BFPipe = 1\<close> and \<open>BIPipe = 2\<close>.\<close>

definition arc_line :: "string \<Rightarrow> string \<Rightarrow> string \<Rightarrow> string \<Rightarrow> real \<Rightarrow> real \<Rightarrow> real \<Rightarrow> arc_row" where
  "arc_line a s e f cp lg bd =
     \<lparr>ar_a = a, ar_start = s, ar_end = e, ar_f = f, ar_cap = Some cp, ar_len = Some lg,
      ar_off = None, ar_cal_b = None, ar_cal_c = None, ar_cal_l = None, ar_cal_r = None,
      ar_cal_x = None, ar_bidir = Some bd\<rparr>"

definition o_line :: "string \<Rightarrow> string \<Rightarrow> string \<Rightarrow> real \<Rightarrow> o_row" where
  "o_line p i1 i2 v = \<lparr>o_param = Some p, o_indx1 = Some i1, o_indx2 = Some i2, o_value = Some v\<rparr>"

definition other_rows :: "o_row list" where
  "other_rows =
     [o_line ''Pipe'' ''Len'' ''Std'' 1, o_line ''YearStep'' [] [] 1, o_line ''BFPipe'' [] [] 1,
      o_line ''BIPipe'' [] [] 2]"

definition pair_arcs :: "arc_row list" where
  "pair_arcs = [arc_line ''A1'' ''X'' ''Y'' ''G'' 10 5 1, arc_line ''A2'' ''Y'' ''X'' ''H'' 0 0 0]"

definition pair_env :: arc_env where
  "pair_env = arc_env_of pair_arcs other_rows [2025] [] Map.empty 0"

definition pair_result :: arc_state where
  "pair_result = arc_finish [''A1'', ''A2''] [''G'', ''H''] [2025] (arc_build pair_env)"

text \<open>Devices of the proofs about the propagation pass.  \<open>prop_step\<close> is one
  iteration of its innermost loop with the test on \<open>opp\<close> repeated in it; \<open>prop_steps\<close>
  lists the iterations in the order of the four nested loops.\<close>
definition prop_step :: "string \<times> string \<times> string \<times> int \<Rightarrow> arc_state \<Rightarrow> arc_state" where
  "prop_step q st = (if dget (opp st) (fst q, fst (snd q)) 0 \<noteq> 1 then st else prop_copy q st)"


text \<open>\<open>ai\<close> is the only arc of \<open>A\<close> with \<open>ao\<close> as opposite, and \<open>ao\<close> the only one with
  \<open>ai\<close> as opposite.\<close>
definition uniq_opp :: "string list \<Rightarrow> arc_state \<Rightarrow> string \<Rightarrow> string \<Rightarrow> bool" where
  "uniq_opp A st ai ao =
     ((\<forall>x \<in> set A. dget (opp st) (x, ao) 0 = 1 \<longrightarrow> x = ai)
      \<and> (\<forall>x \<in> set A. dget (opp st) (x, ai) 0 = 1 \<longrightarrow> x = ao))"
















text \<open>The value that \<open>build_base_model_with_cz\<close> gives \<open>model.c_lr[n,e]\<close>
  (model.py, the initialiser of \<open>c_lr\<close>): a missing key reads 1.0 when the label in upper
  case is \<open>G\<close> and 9999.0 otherwise.\<close>

definition c_lr_init :: "(string \<times> string \<rightharpoonup> real) \<Rightarrow> string \<Rightarrow> string \<Rightarrow> real" where
  "c_lr_init loaded_c_lr n e = dget loaded_c_lr (n, e) (if upper e = ''G'' then 1 else 9999)"



section \<open>model.py: the compiled model\<close>

text \<open>
  \<open>build_base_model_with_cz\<close> turns the dictionary of \<open>load_inputs\<close> into a Pyomo model:
  index sets, parameters read from the dictionary with a default for a missing key,
  variables with a domain, and constraints given by a rule per index.  The model is the
  record of its index sets together with the inputs its parameters read; a parameter
  \<open>mm.p[k]\<close> is the function \<open>mm_p mm k\<close>, a variable assignment a record of functions,
  and a rule returns \<open>Constraint.Skip\<close> or a relation between two values.
\<close>

definition clean_list :: "string list option \<Rightarrow> string list" where
  "clean_list values =
     (case values of
        None \<Rightarrow> []
      | Some vs \<Rightarrow>
          sorted_set (filter (\<lambda>s. s \<noteq> [])
            (map (\<lambda>value. let s = strip value in
                            if lower s \<in> set [''nan'', ''none'', ''null''] then [] else s) vs)))"

text \<open>Python's \<open>xs or ys\<close> on lists.\<close>

definition or_list :: "'a list \<Rightarrow> 'a list \<Rightarrow> 'a list" where
  "or_list xs ys = (if xs = [] then ys else xs)"

text \<open>The entries of \<open>loaded_inputs\<close> that the builder reads; an entry read with
  \<open>.get(key, {})\<close> and absent is the empty map.\<close>

record loaded_inputs =
  loaded_c_z :: "(string \<times> string \<times> real) list"
  loaded_bigM :: real
  loaded_yearstep :: real
  loaded_discRate :: real
  loaded_c_bl :: "string \<times> string \<rightharpoonup> real"
  loaded_ub_bl :: "string \<times> string \<rightharpoonup> real"
  loaded_lossMax :: real
  loaded_vola2 :: "string \<rightharpoonup> real"
  loaded_vols2 :: "string \<rightharpoonup> real"
  loaded_y_values :: "int list"
  loaded_h_values :: "int list"
  loaded_e_values :: "string list"
  loaded_scaleup :: "int \<rightharpoonup> real"
  loaded_n_values :: "string list"
  loaded_cn_values :: "string list"
  loaded_nuts2_values :: "string list"
  loaded_rgn_values :: "string list"
  loaded_n_in_c :: "string \<times> string \<rightharpoonup> int"
  loaded_n_in_2 :: "string \<times> string \<rightharpoonup> int"
  loaded_n_in_r :: "string \<times> string \<rightharpoonup> int"
  loaded_a_values :: "string list"
  loaded_a_s :: "string \<times> string \<rightharpoonup> int"
  loaded_a_e :: "string \<times> string \<rightharpoonup> int"
  loaded_opp :: "string \<times> string \<rightharpoonup> int"
  loaded_opp_map :: "string \<rightharpoonup> string"
  loaded_is_bid :: "string \<rightharpoonup> int"
  loaded_dmd :: "key4 \<rightharpoonup> real"
  loaded_dmd2 :: "key4 \<rightharpoonup> real"
  loaded_cap_p :: "key4 \<rightharpoonup> real"
  loaded_c_p :: "key3 \<rightharpoonup> real"
  loaded_lb_p :: "key4 \<rightharpoonup> real"
  loaded_c_lr :: "string \<times> string \<rightharpoonup> real"
  loaded_ub_r :: "string \<times> string \<rightharpoonup> real"
  loaded_cap_a :: "key3 \<rightharpoonup> real"
  loaded_c_a :: "key3 \<rightharpoonup> real"
  loaded_c_ax :: "key3 \<rightharpoonup> real"
  loaded_c_ab :: "key3 \<rightharpoonup> real"
  loaded_c_ar :: "string \<times> string \<times> string \<times> int \<rightharpoonup> real"
  loaded_f_ar :: "string \<times> string \<times> string \<times> int \<rightharpoonup> real"
  loaded_f_ab :: "string \<times> int \<rightharpoonup> real"
  loaded_e_a :: "string \<times> string \<rightharpoonup> real"
  loaded_cap_we :: "key3 \<rightharpoonup> real"
  loaded_cap_wi :: "key3 \<rightharpoonup> real"
  loaded_cap_ww :: "key3 \<rightharpoonup> real"
  loaded_c_we :: "string \<times> string \<rightharpoonup> real"
  loaded_e_w :: "string \<times> string \<rightharpoonup> real"
  loaded_h2_ready :: "string \<times> string \<rightharpoonup> real"

record model =
  mm_Z :: "string list"
  mm_E :: "string list"
  mm_N :: "string list"
  mm_CN :: "string list"
  mm_NUTS2 :: "string list"
  mm_RGN :: "string list"
  mm_A :: "string list"
  mm_Y :: "int list"
  mm_H :: "int list"
  loaded :: loaded_inputs

text \<open>The keyword arguments are \<open>None\<close> unless given.\<close>

definition build_base_model_with_cz ::
  "loaded_inputs \<Rightarrow> string list option \<Rightarrow> string list option \<Rightarrow> string list option
     \<Rightarrow> string list option \<Rightarrow> int list option \<Rightarrow> int list option \<Rightarrow> model" where
  "build_base_model_with_cz loaded_inputs z_values e_values node_values arc_values y_values h_values =
     (let z_domain = or_list (clean_list z_values)
                       (sorted_set (map fst (loaded_c_z loaded_inputs)));
          e_domain = or_list (or_list (clean_list e_values)
                                (clean_list (Some (loaded_e_values loaded_inputs))))
                       (sorted_set (map (\<lambda>r. fst (snd r)) (loaded_c_z loaded_inputs)));
          final_y_values = sorted_set (case y_values of None \<Rightarrow> loaded_y_values loaded_inputs
                                       | Some ys \<Rightarrow> ys);
          final_h_values = sorted_set (case h_values of None \<Rightarrow> loaded_h_values loaded_inputs
                                       | Some hs \<Rightarrow> hs)
      in \<lparr>mm_Z = z_domain, mm_E = e_domain,
          mm_N = or_list (clean_list node_values) (clean_list (Some (loaded_n_values loaded_inputs))),
          mm_CN = clean_list (Some (loaded_cn_values loaded_inputs)),
          mm_NUTS2 = clean_list (Some (loaded_nuts2_values loaded_inputs)),
          mm_RGN = clean_list (Some (loaded_rgn_values loaded_inputs)),
          mm_A = or_list (clean_list arc_values) (clean_list (Some (loaded_a_values loaded_inputs))),
          mm_Y = final_y_values, mm_H = final_h_values, loaded = loaded_inputs\<rparr>)"

text \<open>\<open>z_dmd\<close>, \<open>first_y\<close>, \<open>y_last\<close> and \<open>y_pos\<close> are computed from the lists that
  initialise \<open>model.Z\<close> and \<open>model.Y\<close>.\<close>

definition z_dmd :: "model \<Rightarrow> string option" where
  "z_dmd mm =
     (if ''ZD2'' \<in> set (mm_Z mm) then Some ''ZD2''
      else (case mm_Z mm of [] \<Rightarrow> None | z # _ \<Rightarrow> Some z))"

definition first_y :: "model \<Rightarrow> int option" where
  "first_y mm = (case mm_Y mm of [] \<Rightarrow> None | y # _ \<Rightarrow> Some y)"

definition y_last :: "model \<Rightarrow> int option" where
  "y_last mm = (if mm_Y mm = [] then None else Some (last (mm_Y mm)))"

definition y_pos :: "model \<Rightarrow> int \<Rightarrow> int" where
  "y_pos mm y = int (length (takeWhile (\<lambda>x. x \<noteq> y) (mm_Y mm)))"

subsection \<open>Parameters\<close>

text \<open>\<open>r(y)\<close> is \<open>1 / pow(1 + discRate, yearstep * y_pos[y])\<close>, a power of a positive
  base (\<open>build_disc_rate\<close> returns a positive rate).\<close>

definition mm_c_z :: "model \<Rightarrow> string \<times> string \<Rightarrow> real" where
  "mm_c_z mm k = dget (fold (\<lambda>r m. m((fst r, fst (snd r)) \<mapsto> snd (snd r))) (loaded_c_z (loaded mm)) Map.empty) k 0"

definition mm_c_bl :: "model \<Rightarrow> string \<times> string \<Rightarrow> real" where
  "mm_c_bl mm k = dget (loaded_c_bl (loaded mm)) k 0"

definition mm_ub_bl :: "model \<Rightarrow> string \<times> string \<Rightarrow> real" where
  "mm_ub_bl mm k = dget (loaded_ub_bl (loaded mm)) k 0"

definition mm_vola2 :: "model \<Rightarrow> string \<Rightarrow> real" where
  "mm_vola2 mm e = dget (loaded_vola2 (loaded mm)) e 1"

definition mm_vols2 :: "model \<Rightarrow> string \<Rightarrow> real" where
  "mm_vols2 mm e = dget (loaded_vols2 (loaded mm)) e 1"

definition mm_bigM :: "model \<Rightarrow> real" where
  "mm_bigM mm = loaded_bigM (loaded mm)"

definition mm_yearstep :: "model \<Rightarrow> real" where
  "mm_yearstep mm = loaded_yearstep (loaded mm)"

definition mm_discRate :: "model \<Rightarrow> real" where
  "mm_discRate mm = loaded_discRate (loaded mm)"

definition mm_lossMax :: "model \<Rightarrow> real" where
  "mm_lossMax mm = loaded_lossMax (loaded mm)"

definition mm_r :: "model \<Rightarrow> int \<Rightarrow> real" where
  "mm_r mm y = 1 / ((1 + mm_discRate mm) powr (mm_yearstep mm * real_of_int (y_pos mm y)))"

definition mm_EOH :: "model \<Rightarrow> int \<Rightarrow> real" where
  "mm_EOH mm y = (if y_last mm \<noteq> None \<and> Some y = y_last mm then 3 else 1)"

definition mm_ypred :: "model \<Rightarrow> int \<times> int \<Rightarrow> int" where
  "mm_ypred mm k = (case k of (y2, y) \<Rightarrow> if y_pos mm y - y_pos mm y2 = 1 then 1 else 0)"

definition mm_yscai :: "model \<Rightarrow> int \<times> int \<Rightarrow> int" where
  "mm_yscai mm k = (case k of (y2, y) \<Rightarrow> if y_pos mm y \<le> y_pos mm y2 then 1 else 0)"

definition mm_scaleUp :: "model \<Rightarrow> int \<Rightarrow> real" where
  "mm_scaleUp mm h = dget (loaded_scaleup (loaded mm)) h 1"

definition mm_n_in_c :: "model \<Rightarrow> string \<times> string \<Rightarrow> int" where
  "mm_n_in_c mm k = dget (loaded_n_in_c (loaded mm)) k 0"

definition mm_n_in_2 :: "model \<Rightarrow> string \<times> string \<Rightarrow> int" where
  "mm_n_in_2 mm k = dget (loaded_n_in_2 (loaded mm)) k 0"

definition mm_n_in_r :: "model \<Rightarrow> string \<times> string \<Rightarrow> int" where
  "mm_n_in_r mm k = dget (loaded_n_in_r (loaded mm)) k 0"

definition mm_a_s :: "model \<Rightarrow> string \<times> string \<Rightarrow> int" where
  "mm_a_s mm k = dget (loaded_a_s (loaded mm)) k 0"

definition mm_a_e :: "model \<Rightarrow> string \<times> string \<Rightarrow> int" where
  "mm_a_e mm k = dget (loaded_a_e (loaded mm)) k 0"

definition mm_opp :: "model \<Rightarrow> string \<times> string \<Rightarrow> int" where
  "mm_opp mm k = dget (loaded_opp (loaded mm)) k 0"

definition mm_is_bid :: "model \<Rightarrow> string \<Rightarrow> int" where
  "mm_is_bid mm a = dget (loaded_is_bid (loaded mm)) a 0"

definition mm_opp_arc :: "model \<Rightarrow> string \<Rightarrow> string" where
  "mm_opp_arc mm a = dget (loaded_opp_map (loaded mm)) a []"

definition mm_is_h :: "model \<Rightarrow> string \<Rightarrow> int" where
  "mm_is_h mm e = (if upper e = ''H'' then 1 else 0)"

definition mm_is_g :: "model \<Rightarrow> string \<Rightarrow> int" where
  "mm_is_g mm e = (if upper e = ''G'' then 1 else 0)"

definition mm_not_h :: "model \<Rightarrow> string \<Rightarrow> int" where
  "mm_not_h mm e = 1 - (if upper e = ''H'' then 1 else 0)"

definition mm_not_g :: "model \<Rightarrow> string \<Rightarrow> int" where
  "mm_not_g mm e = 1 - (if upper e = ''G'' then 1 else 0)"

definition mm_dmd :: "model \<Rightarrow> key4 \<Rightarrow> real" where
  "mm_dmd mm k = dget (loaded_dmd (loaded mm)) k 0"

definition mm_dmd2 :: "model \<Rightarrow> key4 \<Rightarrow> real" where
  "mm_dmd2 mm k = dget (loaded_dmd2 (loaded mm)) k 0"

definition mm_cap_p :: "model \<Rightarrow> key4 \<Rightarrow> real" where
  "mm_cap_p mm k = dget (loaded_cap_p (loaded mm)) k 0"

definition mm_c_p :: "model \<Rightarrow> key3 \<Rightarrow> real" where
  "mm_c_p mm k = dget (loaded_c_p (loaded mm)) k 0"

definition mm_lb_p :: "model \<Rightarrow> key4 \<Rightarrow> real" where
  "mm_lb_p mm k = dget (loaded_lb_p (loaded mm)) k 0"

definition mm_c_lr :: "model \<Rightarrow> string \<times> string \<Rightarrow> real" where
  "mm_c_lr mm k = c_lr_init (loaded_c_lr (loaded mm)) (fst k) (snd k)"

definition mm_ub_r :: "model \<Rightarrow> string \<times> string \<Rightarrow> real" where
  "mm_ub_r mm k = dget (loaded_ub_r (loaded mm)) k 0"

definition mm_cap_a :: "model \<Rightarrow> key3 \<Rightarrow> real" where
  "mm_cap_a mm k = dget (loaded_cap_a (loaded mm)) k 0"

definition mm_c_a :: "model \<Rightarrow> key3 \<Rightarrow> real" where
  "mm_c_a mm k = dget (loaded_c_a (loaded mm)) k 0"

definition mm_c_ax :: "model \<Rightarrow> key3 \<Rightarrow> real" where
  "mm_c_ax mm k = dget (loaded_c_ax (loaded mm)) k 0"

definition mm_c_ab :: "model \<Rightarrow> key3 \<Rightarrow> real" where
  "mm_c_ab mm k = dget (loaded_c_ab (loaded mm)) k 0"

definition mm_f_ab :: "model \<Rightarrow> string \<times> int \<Rightarrow> real" where
  "mm_f_ab mm k = dget (loaded_f_ab (loaded mm)) k 0"

definition mm_c_ar :: "model \<Rightarrow> string \<times> string \<times> string \<times> int \<Rightarrow> real" where
  "mm_c_ar mm k = dget (loaded_c_ar (loaded mm)) k 0"

definition mm_f_ar :: "model \<Rightarrow> string \<times> string \<times> string \<times> int \<Rightarrow> real" where
  "mm_f_ar mm k = dget (loaded_f_ar (loaded mm)) k 0"

definition mm_e_a :: "model \<Rightarrow> string \<times> string \<Rightarrow> real" where
  "mm_e_a mm k = dget (loaded_e_a (loaded mm)) k 1"

definition mm_cap_we :: "model \<Rightarrow> key3 \<Rightarrow> real" where
  "mm_cap_we mm k = dget (loaded_cap_we (loaded mm)) k 0"

definition mm_cap_wi :: "model \<Rightarrow> key3 \<Rightarrow> real" where
  "mm_cap_wi mm k = dget (loaded_cap_wi (loaded mm)) k 0"

definition mm_cap_ww :: "model \<Rightarrow> key3 \<Rightarrow> real" where
  "mm_cap_ww mm k = dget (loaded_cap_ww (loaded mm)) k 0"

definition mm_c_we :: "model \<Rightarrow> string \<times> string \<Rightarrow> real" where
  "mm_c_we mm k = dget (loaded_c_we (loaded mm)) k (mm_vols2 mm (snd k))"

definition mm_e_w :: "model \<Rightarrow> string \<times> string \<Rightarrow> real" where
  "mm_e_w mm k = dget (loaded_e_w (loaded mm)) k (99 / 100)"

definition mm_h2_ready :: "model \<Rightarrow> string \<times> string \<Rightarrow> real" where
  "mm_h2_ready mm k = dget (loaded_h2_ready (loaded mm)) k 0"

subsection \<open>Variables\<close>

text \<open>A value for every variable of the model; \<open>var_domain\<close> is the declared domain
  (\<open>TC\<close> ranges over the reals).\<close>

record assignment =
  Q_P :: "key4 \<Rightarrow> real"
  Q_R :: "key4 \<Rightarrow> real"
  F_A :: "key4 \<Rightarrow> real"
  X_A :: "key3 \<Rightarrow> real"
  K_A :: "key3 \<Rightarrow> real"
  B_AR :: "string \<times> string \<times> string \<times> int \<Rightarrow> real"
  K_RA :: "string \<times> string \<times> string \<times> int \<Rightarrow> real"
  BD :: "string \<times> int \<Rightarrow> real"
  B_BD :: "string \<times> int \<Rightarrow> real"
  K_OPP :: "key3 \<Rightarrow> real"
  K_BD :: "key3 \<Rightarrow> real"
  K_W :: "key3 \<Rightarrow> real"
  B_WR :: "string \<times> string \<times> string \<times> int \<Rightarrow> real"
  K_RW :: "string \<times> string \<times> string \<times> int \<Rightarrow> real"
  Q_B :: "string \<times> string \<times> string \<times> int \<times> int \<Rightarrow> real"
  Q_E :: "key4 \<Rightarrow> real"
  Q_I :: "key4 \<Rightarrow> real"
  Q_S :: "key4 \<Rightarrow> real"
  ZDS :: "string \<times> string \<times> string \<times> int \<times> int \<Rightarrow> real"
  ZN2 :: "key4 \<Rightarrow> real"
  TC :: real

datatype var_domain = NonNegativeReals | Binary | UnitInterval

fun in_domain :: "var_domain \<Rightarrow> real \<Rightarrow> bool" where
  "in_domain NonNegativeReals x = (0 \<le> x)"
| "in_domain Binary x = (x = 0 \<or> x = 1)"
| "in_domain UnitInterval x = (0 \<le> x \<and> x \<le> 1)"

text \<open>What a rule returns, and when an assignment satisfies it.\<close>

datatype con = Skip | Eq_con real real | Le_con real real | Ge_con real real

fun holds :: "con \<Rightarrow> bool" where
  "holds Skip = True"
| "holds (Eq_con l r) = (l = r)"
| "holds (Le_con l r) = (l \<le> r)"
| "holds (Ge_con l r) = (l \<ge> r)"

text \<open>A property for every index of a product of index sets.\<close>

definition over2 :: "'a list \<Rightarrow> 'b list \<Rightarrow> ('a \<Rightarrow> 'b \<Rightarrow> bool) \<Rightarrow> bool" where
  "over2 A B P = (\<forall>a \<in> set A. \<forall>b \<in> set B. P a b)"

definition over3 :: "'a list \<Rightarrow> 'b list \<Rightarrow> 'c list \<Rightarrow> ('a \<Rightarrow> 'b \<Rightarrow> 'c \<Rightarrow> bool) \<Rightarrow> bool" where
  "over3 A B C P = (\<forall>a \<in> set A. \<forall>b \<in> set B. \<forall>c \<in> set C. P a b c)"

definition over4 ::
  "'a list \<Rightarrow> 'b list \<Rightarrow> 'c list \<Rightarrow> 'd list \<Rightarrow> ('a \<Rightarrow> 'b \<Rightarrow> 'c \<Rightarrow> 'd \<Rightarrow> bool) \<Rightarrow> bool" where
  "over4 A B C D P = (\<forall>a \<in> set A. \<forall>b \<in> set B. \<forall>c \<in> set C. \<forall>d \<in> set D. P a b c d)"

definition over5 ::
  "'a list \<Rightarrow> 'b list \<Rightarrow> 'c list \<Rightarrow> 'd list \<Rightarrow> 'e list
     \<Rightarrow> ('a \<Rightarrow> 'b \<Rightarrow> 'c \<Rightarrow> 'd \<Rightarrow> 'e \<Rightarrow> bool) \<Rightarrow> bool" where
  "over5 A B C D E P =
     (\<forall>a \<in> set A. \<forall>b \<in> set B. \<forall>c \<in> set C. \<forall>d \<in> set D. \<forall>e \<in> set E. P a b c d e)"

definition var_domains :: "model \<Rightarrow> assignment \<Rightarrow> bool" where
  "var_domains mm v =
     (over4 (mm_N mm) (mm_E mm) (mm_Y mm) (mm_H mm) (\<lambda>n e y h. in_domain NonNegativeReals (Q_P v (n, e, y, h)))
      \<and> over4 (mm_N mm) (mm_E mm) (mm_Y mm) (mm_H mm) (\<lambda>n e y h. in_domain NonNegativeReals (Q_R v (n, e, y, h)))
      \<and> over4 (mm_A mm) (mm_E mm) (mm_Y mm) (mm_H mm) (\<lambda>a e y h. in_domain NonNegativeReals (F_A v (a, e, y, h)))
      \<and> over3 (mm_A mm) (mm_E mm) (mm_Y mm) (\<lambda>a e y. in_domain NonNegativeReals (X_A v (a, e, y)))
      \<and> over3 (mm_A mm) (mm_E mm) (mm_Y mm) (\<lambda>a e y. in_domain NonNegativeReals (K_A v (a, e, y)))
      \<and> over4 (mm_A mm) (mm_E mm) (mm_E mm) (mm_Y mm) (\<lambda>a e f y. in_domain Binary (B_AR v (a, e, f, y)))
      \<and> over4 (mm_A mm) (mm_E mm) (mm_E mm) (mm_Y mm) (\<lambda>a e f y. in_domain NonNegativeReals (K_RA v (a, e, f, y)))
      \<and> over2 (mm_A mm) (mm_Y mm) (\<lambda>a y. in_domain UnitInterval (BD v (a, y)))
      \<and> over2 (mm_A mm) (mm_Y mm) (\<lambda>a y. in_domain Binary (B_BD v (a, y)))
      \<and> over3 (mm_A mm) (mm_E mm) (mm_Y mm) (\<lambda>a e y. in_domain NonNegativeReals (K_OPP v (a, e, y)))
      \<and> over3 (mm_A mm) (mm_E mm) (mm_Y mm) (\<lambda>a e y. in_domain NonNegativeReals (K_BD v (a, e, y)))
      \<and> over3 (mm_N mm) (mm_E mm) (mm_Y mm) (\<lambda>n e y. in_domain NonNegativeReals (K_W v (n, e, y)))
      \<and> over4 (mm_N mm) (mm_E mm) (mm_E mm) (mm_Y mm) (\<lambda>n e f y. in_domain Binary (B_WR v (n, e, f, y)))
      \<and> over4 (mm_N mm) (mm_E mm) (mm_E mm) (mm_Y mm) (\<lambda>n e f y. in_domain NonNegativeReals (K_RW v (n, e, f, y)))
      \<and> over5 (mm_N mm) (mm_E mm) (mm_E mm) (mm_Y mm) (mm_H mm)
          (\<lambda>n e f y h. in_domain NonNegativeReals (Q_B v (n, e, f, y, h)))
      \<and> over4 (mm_N mm) (mm_E mm) (mm_Y mm) (mm_H mm) (\<lambda>n e y h. in_domain NonNegativeReals (Q_E v (n, e, y, h)))
      \<and> over4 (mm_N mm) (mm_E mm) (mm_Y mm) (mm_H mm) (\<lambda>n e y h. in_domain NonNegativeReals (Q_I v (n, e, y, h)))
      \<and> over4 (mm_N mm) (mm_E mm) (mm_Y mm) (mm_H mm) (\<lambda>n e y h. in_domain NonNegativeReals (Q_S v (n, e, y, h)))
      \<and> over5 (mm_Z mm) (mm_N mm) (mm_E mm) (mm_Y mm) (mm_H mm)
          (\<lambda>z n e y h. in_domain NonNegativeReals (ZDS v (z, n, e, y, h)))
      \<and> over4 (mm_NUTS2 mm) (mm_E mm) (mm_Y mm) (mm_H mm) (\<lambda>g e y h. in_domain NonNegativeReals (ZN2 v (g, e, y, h))))"

subsection \<open>Constraint rules\<close>

text \<open>The rules in the order of the source.  \<open>not_first mm y c\<close> is the guard
  \<open>Skip if first_y is None or int(y) == int(first_y) else c\<close>, \<open>only_first\<close> the guard with
  \<open>!=\<close>; \<open>ypreds mm y\<close> lists the years \<open>y2\<close> with \<open>ypred[y2, y] == 1\<close>.\<close>

definition only_first :: "model \<Rightarrow> int \<Rightarrow> con \<Rightarrow> con" where
  "only_first mm y c = (case first_y mm of None \<Rightarrow> Skip | Some fy \<Rightarrow> if y \<noteq> fy then Skip else c)"

definition not_first :: "model \<Rightarrow> int \<Rightarrow> con \<Rightarrow> con" where
  "not_first mm y c = (case first_y mm of None \<Rightarrow> Skip | Some fy \<Rightarrow> if y = fy then Skip else c)"

definition ypreds :: "model \<Rightarrow> int \<Rightarrow> int list" where
  "ypreds mm y = filter (\<lambda>y2. mm_ypred mm (y2, y) = 1) (mm_Y mm)"

definition p_cap :: "model \<Rightarrow> assignment \<Rightarrow> string \<Rightarrow> string \<Rightarrow> int \<Rightarrow> int \<Rightarrow> con" where
  "p_cap mm v n e y h =
     (if mm_cap_p mm (n, e, y, h) \<le> 0
      then Eq_con (Q_P v (n, e, y, h) + (\<Sum>f\<leftarrow>mm_E mm. Q_B v (n, e, f, y, h))) 0
      else Le_con (Q_P v (n, e, y, h) + (\<Sum>f\<leftarrow>mm_E mm. Q_B v (n, e, f, y, h))) (mm_cap_p mm (n, e, y, h)))"

definition p_min :: "model \<Rightarrow> assignment \<Rightarrow> string \<Rightarrow> string \<Rightarrow> int \<Rightarrow> int \<Rightarrow> con" where
  "p_min mm v n e y h =
     (if mm_lb_p mm (n, e, y, h) \<le> 0 then Skip
      else Ge_con (Q_P v (n, e, y, h) + (\<Sum>f\<leftarrow>mm_E mm. Q_B v (n, e, f, y, h))) (mm_lb_p mm (n, e, y, h)))"

definition r_cap :: "model \<Rightarrow> assignment \<Rightarrow> string \<Rightarrow> string \<Rightarrow> int \<Rightarrow> int \<Rightarrow> con" where
  "r_cap mm v n e y h =
     Le_con (Q_R v (n, e, y, h)) (mm_ub_r mm (n, e))"

definition k_a_init :: "model \<Rightarrow> assignment \<Rightarrow> string \<Rightarrow> string \<Rightarrow> int \<Rightarrow> con" where
  "k_a_init mm v a e y =
     only_first mm y (Eq_con (K_A v (a, e, y)) (mm_cap_a mm (a, e, y)))"

definition k_w_init :: "model \<Rightarrow> assignment \<Rightarrow> string \<Rightarrow> string \<Rightarrow> int \<Rightarrow> con" where
  "k_w_init mm v n e y =
     only_first mm y (Eq_con (K_W v (n, e, y)) (mm_cap_ww mm (n, e, y)))"

definition ar_cap :: "model \<Rightarrow> assignment \<Rightarrow> string \<Rightarrow> string \<Rightarrow> int \<Rightarrow> con" where
  "ar_cap mm v a e y =
     not_first mm y
       (Eq_con (K_A v (a, e, y))
          ((\<Sum>f\<leftarrow>mm_E mm. K_RA v (a, f, e, y)) + (\<Sum>y2\<leftarrow>ypreds mm y. X_A v (a, e, y2))))"

definition wr_cap :: "model \<Rightarrow> assignment \<Rightarrow> string \<Rightarrow> string \<Rightarrow> int \<Rightarrow> con" where
  "wr_cap mm v n e y =
     not_first mm y (Eq_con (K_W v (n, e, y)) (\<Sum>f\<leftarrow>mm_E mm. K_RW v (n, f, e, y)))"

definition a_lim :: "model \<Rightarrow> assignment \<Rightarrow> string \<Rightarrow> string \<Rightarrow> int \<Rightarrow> int \<Rightarrow> con" where
  "a_lim mm v a e y h =
     Le_con (F_A v (a, e, y, h) * mm_vola2 mm e) (K_A v (a, e, y) + K_OPP v (a, e, y))"

definition a_opp1 :: "model \<Rightarrow> assignment \<Rightarrow> string \<Rightarrow> string \<Rightarrow> int \<Rightarrow> con" where
  "a_opp1 mm v a e y =
     Le_con (K_OPP v (a, e, y)) (BD v (a, y) * mm_bigM mm)"

definition a_opp2 :: "model \<Rightarrow> assignment \<Rightarrow> string \<Rightarrow> string \<Rightarrow> int \<Rightarrow> con" where
  "a_opp2 mm v a e y =
     Le_con (K_OPP v (a, e, y)) (\<Sum>ao\<leftarrow>mm_A mm. real_of_int (mm_opp mm (ao, a)) * K_A v (ao, e, y))"

definition k_bd_fix_is_bid :: "model \<Rightarrow> assignment \<Rightarrow> string \<Rightarrow> string \<Rightarrow> int \<Rightarrow> con" where
  "k_bd_fix_is_bid mm v a e y =
     (if mm_is_bid mm a = 1 then Eq_con (K_BD v (a, e, y)) 0 else Skip)"

definition bd_cost :: "model \<Rightarrow> assignment \<Rightarrow> string \<Rightarrow> string \<Rightarrow> int \<Rightarrow> int \<Rightarrow> con" where
  "bd_cost mm v a e y y2 =
     (if mm_is_bid mm a = 1 \<or> mm_yscai mm (y2, y) \<noteq> 1 then Skip
      else Ge_con (K_BD v (a, e, y)) (K_OPP v (a, e, y2) - (1 - B_BD v (a, y)) * mm_bigM mm))"

definition bd_fix_is_bid :: "model \<Rightarrow> assignment \<Rightarrow> string \<Rightarrow> int \<Rightarrow> con" where
  "bd_fix_is_bid mm v a y =
     (if mm_is_bid mm a = 1 then Eq_con (BD v (a, y)) 1 else Skip)"

definition bidir :: "model \<Rightarrow> assignment \<Rightarrow> string \<Rightarrow> int \<Rightarrow> con" where
  "bidir mm v a y =
     (if mm_is_bid mm a = 1 then Skip
      else Le_con (BD v (a, y)) (B_BD v (a, y) + (\<Sum>y2\<leftarrow>ypreds mm y. BD v (a, y2))))"

definition sos_a :: "model \<Rightarrow> assignment \<Rightarrow> string \<Rightarrow> string \<Rightarrow> int \<Rightarrow> con" where
  "sos_a mm v a e y =
     not_first mm y (Eq_con (\<Sum>f\<leftarrow>mm_E mm. B_AR v (a, e, f, y)) 1)"

definition sos_w :: "model \<Rightarrow> assignment \<Rightarrow> string \<Rightarrow> string \<Rightarrow> int \<Rightarrow> con" where
  "sos_w mm v n e y =
     not_first mm y (Eq_con (\<Sum>f\<leftarrow>mm_E mm. B_WR v (n, e, f, y)) 1)"

definition b_ar_fix_first :: "model \<Rightarrow> assignment \<Rightarrow> string \<Rightarrow> string \<Rightarrow> string \<Rightarrow> int \<Rightarrow> con" where
  "b_ar_fix_first mm v a e f y =
     only_first mm y (Eq_con (B_AR v (a, e, f, y)) 0)"

definition k_ra_fix_first :: "model \<Rightarrow> assignment \<Rightarrow> string \<Rightarrow> string \<Rightarrow> string \<Rightarrow> int \<Rightarrow> con" where
  "k_ra_fix_first mm v a e f y =
     only_first mm y (Eq_con (K_RA v (a, e, f, y)) 0)"

definition b_wr_fix_first :: "model \<Rightarrow> assignment \<Rightarrow> string \<Rightarrow> string \<Rightarrow> string \<Rightarrow> int \<Rightarrow> con" where
  "b_wr_fix_first mm v n e f y =
     only_first mm y (Eq_con (B_WR v (n, e, f, y)) 0)"

definition k_rw_fix_first :: "model \<Rightarrow> assignment \<Rightarrow> string \<Rightarrow> string \<Rightarrow> string \<Rightarrow> int \<Rightarrow> con" where
  "k_rw_fix_first mm v n e f y =
     only_first mm y (Eq_con (K_RW v (n, e, f, y)) 0)"

definition k_w_fix_h2_ready :: "model \<Rightarrow> assignment \<Rightarrow> string \<Rightarrow> int \<Rightarrow> con" where
  "k_w_fix_h2_ready mm v n y =
     (if ''G'' \<in> set (mm_E mm) \<and> mm_h2_ready mm (n, ''G'') \<le> 0
      then Eq_con (K_W v (n, ''G'', y)) (mm_cap_ww mm (n, ''G'', y)) else Skip)"

definition bil_a1 :: "model \<Rightarrow> assignment \<Rightarrow> string \<Rightarrow> string \<Rightarrow> int \<Rightarrow> con" where
  "bil_a1 mm v a e y =
     not_first mm y
       (Eq_con (\<Sum>f\<leftarrow>mm_E mm. K_RA v (a, e, f, y)) (\<Sum>y2\<leftarrow>ypreds mm y. K_A v (a, e, y2)))"

definition bil_w1 :: "model \<Rightarrow> assignment \<Rightarrow> string \<Rightarrow> string \<Rightarrow> int \<Rightarrow> con" where
  "bil_w1 mm v n e y =
     not_first mm y
       (Eq_con (\<Sum>f\<leftarrow>mm_E mm. K_RW v (n, e, f, y)) (\<Sum>y2\<leftarrow>ypreds mm y. K_W v (n, e, y2)))"

definition bil_a2 :: "model \<Rightarrow> assignment \<Rightarrow> string \<Rightarrow> string \<Rightarrow> string \<Rightarrow> int \<Rightarrow> con" where
  "bil_a2 mm v a e f y =
     not_first mm y (Le_con (K_RA v (a, e, f, y)) (B_AR v (a, e, f, y) * mm_bigM mm))"

definition bil_w2 :: "model \<Rightarrow> assignment \<Rightarrow> string \<Rightarrow> string \<Rightarrow> string \<Rightarrow> int \<Rightarrow> con" where
  "bil_w2 mm v n e f y =
     not_first mm y (Le_con (K_RW v (n, e, f, y)) (B_WR v (n, e, f, y) * mm_bigM mm))"

definition w_extr_cap :: "model \<Rightarrow> assignment \<Rightarrow> string \<Rightarrow> string \<Rightarrow> int \<Rightarrow> int \<Rightarrow> con" where
  "w_extr_cap mm v n e y h =
     Le_con (Q_E v (n, e, y, h)) (mm_cap_we mm (n, e, y))"

definition w_inj_cap :: "model \<Rightarrow> assignment \<Rightarrow> string \<Rightarrow> string \<Rightarrow> int \<Rightarrow> int \<Rightarrow> con" where
  "w_inj_cap mm v n e y h =
     Le_con (Q_I v (n, e, y, h)) (mm_cap_wi mm (n, e, y))"

definition dmd_n3 :: "model \<Rightarrow> assignment \<Rightarrow> string \<Rightarrow> string \<Rightarrow> int \<Rightarrow> int \<Rightarrow> con" where
  "dmd_n3 mm v n e y h =
     (case z_dmd mm of
        None \<Rightarrow> Skip
      | Some z \<Rightarrow>
          if mm_not_h mm e \<noteq> 1 \<or> mm_dmd mm (n, e, y, h) \<le> 0 then Skip
          else Eq_con (Q_S v (n, e, y, h)) (mm_dmd mm (n, e, y, h) - ZDS v (z, n, e, y, h)))"

definition qs_zero_nonh :: "model \<Rightarrow> assignment \<Rightarrow> string \<Rightarrow> string \<Rightarrow> int \<Rightarrow> int \<Rightarrow> con" where
  "qs_zero_nonh mm v n e y h =
     (if mm_not_h mm e \<noteq> 1 \<or> 0 < mm_dmd mm (n, e, y, h) then Skip
      else Eq_con (Q_S v (n, e, y, h)) 0)"

definition zd2_zero_nonh :: "model \<Rightarrow> assignment \<Rightarrow> string \<Rightarrow> string \<Rightarrow> int \<Rightarrow> int \<Rightarrow> con" where
  "zd2_zero_nonh mm v n e y h =
     (case z_dmd mm of
        None \<Rightarrow> Skip
      | Some z \<Rightarrow>
          if mm_not_h mm e \<noteq> 1 \<or> 0 < mm_dmd mm (n, e, y, h) then Skip
          else Eq_con (ZDS v (z, n, e, y, h)) 0)"

definition qb_fix_type :: "model \<Rightarrow> assignment \<Rightarrow> string \<Rightarrow> string \<Rightarrow> string \<Rightarrow> int \<Rightarrow> int \<Rightarrow> con" where
  "qb_fix_type mm v n e f y h =
     (if mm_not_h mm e = 1 \<or> mm_not_g mm f = 1 then Eq_con (Q_B v (n, e, f, y, h)) 0 else Skip)"

definition qb_fix_cap :: "model \<Rightarrow> assignment \<Rightarrow> string \<Rightarrow> string \<Rightarrow> string \<Rightarrow> int \<Rightarrow> int \<Rightarrow> con" where
  "qb_fix_cap mm v n e f y h =
     (if mm_cap_p mm (n, e, y, h) \<le> 0 then Eq_con (Q_B v (n, e, f, y, h)) 0 else Skip)"

definition qb_fix_same :: "model \<Rightarrow> assignment \<Rightarrow> string \<Rightarrow> string \<Rightarrow> int \<Rightarrow> int \<Rightarrow> con" where
  "qb_fix_same mm v n e y h =
     Eq_con (Q_B v (n, e, e, y, h)) 0"

definition max_bl :: "model \<Rightarrow> assignment \<Rightarrow> string \<Rightarrow> string \<Rightarrow> string \<Rightarrow> int \<Rightarrow> int \<Rightarrow> con" where
  "max_bl mm v n f e y h =
     (if mm_is_h mm f \<noteq> 1 \<or> mm_is_g mm e \<noteq> 1 \<or> mm_cap_p mm (n, f, y, h) \<le> 0 then Skip
      else Le_con (Q_B v (n, f, e, y, h))
             (mm_ub_bl mm (f, e)
              * (Q_S v (n, e, y, h)
                 + (\<Sum>a\<leftarrow>filter (\<lambda>a. mm_a_s mm (a, n) = 1) (mm_A mm). F_A v (a, e, y, h))
                 + Q_I v (n, e, y, h))))"

definition dmd_n2 :: "model \<Rightarrow> assignment \<Rightarrow> string \<Rightarrow> string \<Rightarrow> int \<Rightarrow> int \<Rightarrow> con" where
  "dmd_n2 mm v g e y h =
     (if mm_is_h mm e \<noteq> 1 \<or> mm_dmd2 mm (g, e, y, h) \<le> 0 then Skip
      else Eq_con (\<Sum>n\<leftarrow>filter (\<lambda>n. mm_n_in_2 mm (n, g) = 1) (mm_N mm). Q_S v (n, e, y, h))
             (mm_dmd2 mm (g, e, y, h) - ZN2 v (g, e, y, h)))"

definition mb_node :: "model \<Rightarrow> assignment \<Rightarrow> string \<Rightarrow> string \<Rightarrow> int \<Rightarrow> int \<Rightarrow> con" where
  "mb_node mm v n e y h =
     Eq_con
       (Q_P v (n, e, y, h)
        + (\<Sum>a\<leftarrow>filter (\<lambda>a. mm_a_e mm (a, n) = 1) (mm_A mm). F_A v (a, e, y, h) * mm_e_a mm (a, e))
        + Q_E v (n, e, y, h)
        + Q_R v (n, e, y, h)
        + (\<Sum>f\<leftarrow>mm_E mm. Q_B v (n, f, e, y, h)))
       (Q_S v (n, e, y, h)
        + (\<Sum>a\<leftarrow>filter (\<lambda>a. mm_a_s mm (a, n) = 1) (mm_A mm). F_A v (a, e, y, h))
        + Q_I v (n, e, y, h))"

definition w_lim :: "model \<Rightarrow> assignment \<Rightarrow> string \<Rightarrow> string \<Rightarrow> int \<Rightarrow> con" where
  "w_lim mm v n e y =
     Le_con ((\<Sum>h\<leftarrow>mm_H mm. mm_scaleUp mm h * Q_E v (n, e, y, h)) * mm_vols2 mm e) (K_W v (n, e, y))"

definition w_cyc :: "model \<Rightarrow> assignment \<Rightarrow> string \<Rightarrow> string \<Rightarrow> int \<Rightarrow> con" where
  "w_cyc mm v n e y =
     Eq_con (\<Sum>h\<leftarrow>mm_H mm. mm_scaleUp mm h * Q_E v (n, e, y, h))
            (mm_e_w mm (n, e) * (\<Sum>h\<leftarrow>mm_H mm. mm_scaleUp mm h * Q_I v (n, e, y, h)))"

text \<open>The objective and the equation that links \<open>TC\<close> to it.\<close>

definition obj_total_cost :: "model \<Rightarrow> assignment \<Rightarrow> real" where
  "obj_total_cost mm v =
     (\<Sum>n\<leftarrow>mm_N mm. \<Sum>e\<leftarrow>mm_E mm. \<Sum>y\<leftarrow>mm_Y mm. \<Sum>h\<leftarrow>mm_H mm.
        mm_r mm y * mm_scaleUp mm h
        * (mm_c_p mm (n, e, y) * Q_P v (n, e, y, h) + mm_c_lr mm (n, e) * Q_R v (n, e, y, h)
           + mm_c_we mm (n, e) * Q_E v (n, e, y, h)))
     + (\<Sum>z\<leftarrow>mm_Z mm. \<Sum>n\<leftarrow>mm_N mm. \<Sum>e\<leftarrow>mm_E mm. \<Sum>y\<leftarrow>mm_Y mm. \<Sum>h\<leftarrow>mm_H mm.
          mm_r mm y * mm_scaleUp mm h * mm_c_z mm (z, e) * ZDS v (z, n, e, y, h))
     + (\<Sum>a\<leftarrow>mm_A mm. \<Sum>e\<leftarrow>mm_E mm. \<Sum>y\<leftarrow>mm_Y mm.
          mm_r mm y * mm_EOH mm y * mm_c_ax mm (a, e, y) * X_A v (a, e, y))
     + (\<Sum>a\<leftarrow>mm_A mm. \<Sum>y\<leftarrow>mm_Y mm. mm_r mm y * mm_EOH mm y * mm_f_ab mm (a, y) * B_BD v (a, y))
     + (\<Sum>a\<leftarrow>mm_A mm. \<Sum>e\<leftarrow>mm_E mm. \<Sum>y\<leftarrow>mm_Y mm.
          mm_r mm y * mm_EOH mm y * mm_c_ab mm (a, e, y) * K_BD v (a, e, y))
     + (\<Sum>a\<leftarrow>mm_A mm. \<Sum>e\<leftarrow>mm_E mm. \<Sum>f\<leftarrow>mm_E mm. \<Sum>y\<leftarrow>mm_Y mm.
          mm_r mm y * mm_EOH mm y * mm_f_ar mm (a, e, f, y) * B_AR v (a, e, f, y))
     + (\<Sum>a\<leftarrow>mm_A mm. \<Sum>e\<leftarrow>mm_E mm. \<Sum>f\<leftarrow>mm_E mm. \<Sum>y\<leftarrow>mm_Y mm.
          mm_r mm y * mm_EOH mm y * mm_c_ar mm (a, e, f, y) * K_RA v (a, e, f, y))
     + (\<Sum>a\<leftarrow>mm_A mm. \<Sum>e\<leftarrow>mm_E mm. \<Sum>y\<leftarrow>mm_Y mm. \<Sum>h\<leftarrow>mm_H mm.
          mm_r mm y * mm_scaleUp mm h * mm_c_a mm (a, e, y) * F_A v (a, e, y, h))
     + (\<Sum>n\<leftarrow>mm_N mm. \<Sum>e\<leftarrow>mm_E mm. \<Sum>f\<leftarrow>mm_E mm. \<Sum>y\<leftarrow>mm_Y mm. \<Sum>h\<leftarrow>mm_H mm.
          mm_r mm y * mm_scaleUp mm h * mm_c_bl mm (e, f) * Q_B v (n, e, f, y, h))
     + (\<Sum>g\<leftarrow>mm_NUTS2 mm. \<Sum>e\<leftarrow>mm_E mm. \<Sum>y\<leftarrow>mm_Y mm. \<Sum>h\<leftarrow>mm_H mm.
          mm_r mm y * mm_scaleUp mm h
          * (case z_dmd mm of None \<Rightarrow> 0 | Some z \<Rightarrow> mm_c_z mm (z, e) * ZN2 v (g, e, y, h)))"

definition tc_link_con :: "model \<Rightarrow> assignment \<Rightarrow> con" where
  "tc_link_con mm v = Eq_con (TC v) (obj_total_cost mm v)"

text \<open>An assignment satisfies the model when every variable is in its domain and
  every constraint that is not skipped holds.\<close>

definition constraints_hold :: "model \<Rightarrow> assignment \<Rightarrow> bool" where
  "constraints_hold mm v =
     (over4 (mm_N mm) (mm_E mm) (mm_Y mm) (mm_H mm) (\<lambda>n e y h. holds (p_cap mm v n e y h))
      \<and> over4 (mm_N mm) (mm_E mm) (mm_Y mm) (mm_H mm) (\<lambda>n e y h. holds (p_min mm v n e y h))
      \<and> over4 (mm_N mm) (mm_E mm) (mm_Y mm) (mm_H mm) (\<lambda>n e y h. holds (r_cap mm v n e y h))
      \<and> over3 (mm_A mm) (mm_E mm) (mm_Y mm) (\<lambda>a e y. holds (k_a_init mm v a e y))
      \<and> over3 (mm_N mm) (mm_E mm) (mm_Y mm) (\<lambda>n e y. holds (k_w_init mm v n e y))
      \<and> over3 (mm_A mm) (mm_E mm) (mm_Y mm) (\<lambda>a e y. holds (ar_cap mm v a e y))
      \<and> over3 (mm_N mm) (mm_E mm) (mm_Y mm) (\<lambda>n e y. holds (wr_cap mm v n e y))
      \<and> over4 (mm_A mm) (mm_E mm) (mm_Y mm) (mm_H mm) (\<lambda>a e y h. holds (a_lim mm v a e y h))
      \<and> over3 (mm_A mm) (mm_E mm) (mm_Y mm) (\<lambda>a e y. holds (a_opp1 mm v a e y))
      \<and> over3 (mm_A mm) (mm_E mm) (mm_Y mm) (\<lambda>a e y. holds (a_opp2 mm v a e y))
      \<and> over3 (mm_A mm) (mm_E mm) (mm_Y mm) (\<lambda>a e y. holds (k_bd_fix_is_bid mm v a e y))
      \<and> over4 (mm_A mm) (mm_E mm) (mm_Y mm) (mm_Y mm) (\<lambda>a e y y2. holds (bd_cost mm v a e y y2))
      \<and> over2 (mm_A mm) (mm_Y mm) (\<lambda>a y. holds (bd_fix_is_bid mm v a y))
      \<and> over2 (mm_A mm) (mm_Y mm) (\<lambda>a y. holds (bidir mm v a y))
      \<and> over3 (mm_A mm) (mm_E mm) (mm_Y mm) (\<lambda>a e y. holds (sos_a mm v a e y))
      \<and> over3 (mm_N mm) (mm_E mm) (mm_Y mm) (\<lambda>n e y. holds (sos_w mm v n e y))
      \<and> over4 (mm_A mm) (mm_E mm) (mm_E mm) (mm_Y mm) (\<lambda>a e f y. holds (b_ar_fix_first mm v a e f y))
      \<and> over4 (mm_A mm) (mm_E mm) (mm_E mm) (mm_Y mm) (\<lambda>a e f y. holds (k_ra_fix_first mm v a e f y))
      \<and> over4 (mm_N mm) (mm_E mm) (mm_E mm) (mm_Y mm) (\<lambda>n e f y. holds (b_wr_fix_first mm v n e f y))
      \<and> over4 (mm_N mm) (mm_E mm) (mm_E mm) (mm_Y mm) (\<lambda>n e f y. holds (k_rw_fix_first mm v n e f y))
      \<and> over2 (mm_N mm) (mm_Y mm) (\<lambda>n y. holds (k_w_fix_h2_ready mm v n y))
      \<and> over3 (mm_A mm) (mm_E mm) (mm_Y mm) (\<lambda>a e y. holds (bil_a1 mm v a e y))
      \<and> over3 (mm_N mm) (mm_E mm) (mm_Y mm) (\<lambda>n e y. holds (bil_w1 mm v n e y))
      \<and> over4 (mm_A mm) (mm_E mm) (mm_E mm) (mm_Y mm) (\<lambda>a e f y. holds (bil_a2 mm v a e f y))
      \<and> over4 (mm_N mm) (mm_E mm) (mm_E mm) (mm_Y mm) (\<lambda>n e f y. holds (bil_w2 mm v n e f y))
      \<and> over4 (mm_N mm) (mm_E mm) (mm_Y mm) (mm_H mm) (\<lambda>n e y h. holds (w_extr_cap mm v n e y h))
      \<and> over4 (mm_N mm) (mm_E mm) (mm_Y mm) (mm_H mm) (\<lambda>n e y h. holds (w_inj_cap mm v n e y h))
      \<and> over4 (mm_N mm) (mm_E mm) (mm_Y mm) (mm_H mm) (\<lambda>n e y h. holds (dmd_n3 mm v n e y h))
      \<and> over4 (mm_N mm) (mm_E mm) (mm_Y mm) (mm_H mm) (\<lambda>n e y h. holds (qs_zero_nonh mm v n e y h))
      \<and> over4 (mm_N mm) (mm_E mm) (mm_Y mm) (mm_H mm) (\<lambda>n e y h. holds (zd2_zero_nonh mm v n e y h))
      \<and> over5 (mm_N mm) (mm_E mm) (mm_E mm) (mm_Y mm) (mm_H mm)
          (\<lambda>n e f y h. holds (qb_fix_type mm v n e f y h))
      \<and> over5 (mm_N mm) (mm_E mm) (mm_E mm) (mm_Y mm) (mm_H mm)
          (\<lambda>n e f y h. holds (qb_fix_cap mm v n e f y h))
      \<and> over4 (mm_N mm) (mm_E mm) (mm_Y mm) (mm_H mm) (\<lambda>n e y h. holds (qb_fix_same mm v n e y h))
      \<and> over5 (mm_N mm) (mm_E mm) (mm_E mm) (mm_Y mm) (mm_H mm)
          (\<lambda>n f e y h. holds (max_bl mm v n f e y h))
      \<and> over4 (mm_NUTS2 mm) (mm_E mm) (mm_Y mm) (mm_H mm) (\<lambda>g e y h. holds (dmd_n2 mm v g e y h))
      \<and> over4 (mm_N mm) (mm_E mm) (mm_Y mm) (mm_H mm) (\<lambda>n e y h. holds (mb_node mm v n e y h))
      \<and> over3 (mm_N mm) (mm_E mm) (mm_Y mm) (\<lambda>n e y. holds (w_lim mm v n e y))
      \<and> over3 (mm_N mm) (mm_E mm) (mm_Y mm) (\<lambda>n e y. holds (w_cyc mm v n e y))
      \<and> holds (tc_link_con mm v))"

definition feasible :: "model \<Rightarrow> assignment \<Rightarrow> bool" where
  "feasible mm v = (var_domains mm v \<and> constraints_hold mm v)"

subsection \<open>A small scenario\<close>

text \<open>
  Two nodes joined by the pipe \<open>A1\<close> of capacity 10, the fuel \<open>G\<close>, the years 2025 and
  2030 and one hour; \<open>N1\<close> has a gas storage of 3 that is not H2-ready and a demand of 5
  in 2025; no penalty class.  In \<open>demo_assignment\<close> nothing flows: the pipe and the
  storage keep their capacity in 2030 (repurposed from \<open>G\<close> to \<open>G\<close>).
\<close>

definition demo_inputs :: loaded_inputs where
  "demo_inputs =
     \<lparr>loaded_c_z = [], loaded_bigM = 100, loaded_yearstep = 5, loaded_discRate = 1 / 50,
      loaded_c_bl = Map.empty, loaded_ub_bl = Map.empty, loaded_lossMax = 0,
      loaded_vola2 = [''G'' \<mapsto> 1], loaded_vols2 = [''G'' \<mapsto> 1],
      loaded_y_values = [2025, 2030], loaded_h_values = [1], loaded_e_values = [''G''],
      loaded_scaleup = Map.empty, loaded_n_values = [''N1'', ''N2''], loaded_cn_values = [],
      loaded_nuts2_values = [], loaded_rgn_values = [], loaded_n_in_c = Map.empty,
      loaded_n_in_2 = Map.empty, loaded_n_in_r = Map.empty, loaded_a_values = [''A1''],
      loaded_a_s = [(''A1'', ''N1'') \<mapsto> 1], loaded_a_e = [(''A1'', ''N2'') \<mapsto> 1],
      loaded_opp = Map.empty, loaded_opp_map = Map.empty, loaded_is_bid = [''A1'' \<mapsto> 0],
      loaded_dmd = [(''N1'', ''G'', 2025, 1) \<mapsto> 5], loaded_dmd2 = Map.empty,
      loaded_cap_p = Map.empty, loaded_c_p = Map.empty, loaded_lb_p = Map.empty,
      loaded_c_lr = Map.empty, loaded_ub_r = Map.empty,
      loaded_cap_a = [(''A1'', ''G'', 2025) \<mapsto> 10, (''A1'', ''G'', 2030) \<mapsto> 10],
      loaded_c_a = Map.empty, loaded_c_ax = Map.empty, loaded_c_ab = Map.empty,
      loaded_c_ar = Map.empty, loaded_f_ar = Map.empty, loaded_f_ab = Map.empty,
      loaded_e_a = Map.empty, loaded_cap_we = Map.empty, loaded_cap_wi = Map.empty,
      loaded_cap_ww = [(''N1'', ''G'', 2025) \<mapsto> 3, (''N1'', ''G'', 2030) \<mapsto> 3],
      loaded_c_we = Map.empty, loaded_e_w = Map.empty,
      loaded_h2_ready = [(''N1'', ''G'') \<mapsto> 0]\<rparr>"

definition demo_model :: model where
  "demo_model = build_base_model_with_cz demo_inputs None None None None None None"

text \<open>The same inputs with the penalty classes \<open>ZX\<close> and \<open>ZA\<close> given by keyword.\<close>

definition demo_model_z :: model where
  "demo_model_z = build_base_model_with_cz demo_inputs (Some [''ZX'', ''ZA'']) None None None None None"

definition demo_assignment :: assignment where
  "demo_assignment =
     \<lparr>Q_P = (\<lambda>k. 0), Q_R = (\<lambda>k. 0), F_A = (\<lambda>k. 0), X_A = (\<lambda>k. 0), K_A = (\<lambda>k. 10),
      B_AR = (\<lambda>(a, e, f, y). if y = 2030 then 1 else 0),
      K_RA = (\<lambda>(a, e, f, y). if y = 2030 then 10 else 0),
      BD = (\<lambda>k. 0), B_BD = (\<lambda>k. 0), K_OPP = (\<lambda>k. 0), K_BD = (\<lambda>k. 0),
      K_W = (\<lambda>(n, e, y). if n = ''N1'' then 3 else 0),
      B_WR = (\<lambda>(n, e, f, y). if y = 2030 then 1 else 0),
      K_RW = (\<lambda>(n, e, f, y). if y = 2030 \<and> n = ''N1'' then 3 else 0),
      Q_B = (\<lambda>k. 0), Q_E = (\<lambda>k. 0), Q_I = (\<lambda>k. 0), Q_S = (\<lambda>k. 0), ZDS = (\<lambda>k. 0),
      ZN2 = (\<lambda>k. 0), TC = 0\<rparr>"

section \<open>Properties of the parameter builder\<close>

lemma find_positive_chain:
  "(case List.find (\<lambda>v. 0 < v) [a, b, c :: real] of Some v \<Rightarrow> v | None \<Rightarrow> c) =
     (if a \<le> 0 then (if b \<le> 0 then c else b) else a)"
  by (simp add: not_less)

text \<open>
  C8 (as the code has it).  \<open>penalty_value\<close> returns the first strictly positive value of
  the chain \<open>lookup(z,e)\<close>, \<open>lookup(z,'')\<close>, \<open>lookup('','')\<close>; when no link is strictly
  positive it returns the last link, \<open>lookup('','')\<close> (0.0 when that key is absent), which
  is then a non-positive number and not necessarily 0.0.
\<close>

theorem penalty_value_chain:
  "penalty_value lookup z e =
     (case List.find (\<lambda>v. 0 < v) (penalty_chain lookup z e) of
        Some v \<Rightarrow> v
      | None \<Rightarrow> dget lookup ([], []) 0)"
  unfolding penalty_chain_def find_positive_chain
  by (simp add: penalty_value_def Let_def)

text \<open>
  C8 as stated fails: with the single row \<open>('','') \<mapsto> -5\<close> no link of the chain is
  strictly positive, and the result is \<open>-5\<close>, not \<open>0.0\<close>.
\<close>

theorem penalty_value_not_zero_counterexample:
  "List.find (\<lambda>v. 0 < v) (penalty_chain [([], []) \<mapsto> -5] ''ZD2'' ''G'') = None
   \<and> penalty_value [([], []) \<mapsto> -5] ''ZD2'' ''G'' = -5
   \<and> penalty_value [([], []) \<mapsto> -5] ''ZD2'' ''G'' \<noteq> 0"
  by (simp add: penalty_value_def penalty_chain_def dget_def norm_def clean_str_def strip_def
      is_space_def Let_def)

section \<open>Production: lower bound and carry-forward\<close>


lemma dget_upd: "dget (m(a \<mapsto> v)) k d = (if k = a then v else dget m k d)"
  by (simp add: dget_def)

lemma clip_lb_get:
  "distinct (map fst cap) \<Longrightarrow>
   dget (clip_lb cap lb) k 0 =
     (case map_of cap k of None \<Rightarrow> dget lb k 0 | Some c \<Rightarrow> min (dget lb k 0) c)"
  unfolding clip_lb_def
proof (induction cap arbitrary: lb)
  case Nil
  then show ?case by simp
next
  case (Cons kv cap)
  obtain k' c' where kv: "kv = (k', c')" by (cases kv)
  from Cons.prems have d: "distinct (map fst cap)" and nin: "k' \<notin> fst ` set cap"
    by (auto simp: kv)
  from nin have none: "map_of cap k' = None"
    by (simp add: map_of_eq_None_iff)
  define lb' where "lb' = lb(k' \<mapsto> min (dget lb k' 0) c')"
  have step: "fold clip_step (kv # cap) lb = fold clip_step cap lb'"
    by (simp add: clip_step_def kv lb'_def)
  have ih: "dget (fold clip_step cap lb') k 0 =
      (case map_of cap k of None \<Rightarrow> dget lb' k 0 | Some c \<Rightarrow> min (dget lb' k 0) c)"
    by (rule Cons.IH[OF d])
  have g: "dget lb' k 0 = (if k = k' then min (dget lb k' 0) c' else dget lb k 0)"
    by (simp add: lb'_def dget_upd)
  show ?case
  proof (cases "k = k'")
    case True
    then show ?thesis unfolding step ih g using none by (simp add: kv)
  next
    case False
    then show ?thesis unfolding step ih g by (simp add: kv)
  qed
qed


lemma prod_inv_hour: "prod_inv st \<Longrightarrow> prod_inv (prod_hour_step n f y l hc st)"
  by (auto simp: prod_inv_def prod_hour_step_def distinct_update dom_update)

lemma prod_inv_hours: "prod_inv st \<Longrightarrow> prod_inv (fold (prod_hour_step n f y l) hcs st)"
  by (induction hcs arbitrary: st) (auto simp: prod_inv_hour)

lemma prod_inv_upd:
  "prod_inv st \<Longrightarrow> prod_inv (st\<lparr>p_f_values := fs, c_p := c\<rparr>)"
  by (simp add: prod_inv_def)

lemma prod_inv_row: "prod_inv st \<Longrightarrow> prod_inv (prod_row_step hcols row st)"
proof (cases "wr_y row")
  case None
  assume "prod_inv st"
  with None show ?thesis by (simp add: prod_row_step_def)
next
  case (Some y)
  assume inv: "prod_inv st"
  show ?thesis
    using Some inv prod_inv_hours[OF prod_inv_upd[OF inv]]
    by (simp add: prod_row_step_def Let_def)
qed

lemma prod_inv_rows: "prod_inv st \<Longrightarrow> prod_inv (fold (prod_row_step hcols) rows st)"
  by (induction rows arbitrary: st) (auto simp: prod_inv_row)

lemma prod_inv_init: "prod_inv prod_init"
  by (simp add: prod_inv_def prod_init_def)

text \<open>
  C5.  After \<open>_extract_production_data\<close> the lower bound never exceeds the capacity, at
  every cell \<open>(n,e,y,h)\<close>: the model reads both maps with default 0.0
  (\<open>loaded_lb_p.get(k, 0.0)\<close>, \<open>loaded_cap_p.get(k, 0.0)\<close>), so the cells absent from both
  maps are included.
\<close>

theorem lb_p_le_cap_p:
  "dget (lb_p (extract_production_data df_p)) k 0
     \<le> dget (map_of (cap_p (extract_production_data df_p))) k 0"
proof (cases "wrows df_p = []")
  case True
  then show ?thesis by (simp add: extract_production_data_def prod_init_def dget_def)
next
  case False
  define st where "st = fold (prod_row_step (hour_cols df_p)) (wrows df_p) prod_init"
  have inv: "prod_inv st" unfolding st_def by (rule prod_inv_rows[OF prod_inv_init])
  have lb: "lb_p (extract_production_data df_p) = clip_lb (cap_p st) (lb_p st)"
    and cap: "cap_p (extract_production_data df_p) = cap_p st"
    using False by (simp_all add: extract_production_data_def Let_def st_def)
  have d: "distinct (map fst (cap_p st))" and dm: "dom (lb_p st) = fst ` set (cap_p st)"
    using inv by (simp_all add: prod_inv_def)
  have eq: "dget (lb_p (extract_production_data df_p)) k 0 =
      (case map_of (cap_p st) k of None \<Rightarrow> dget (lb_p st) k 0 | Some c \<Rightarrow> min (dget (lb_p st) k 0) c)"
    unfolding lb by (rule clip_lb_get[OF d])
  show ?thesis
  proof (cases "map_of (cap_p st) k")
    case None
    then have "k \<notin> dom (lb_p st)" by (simp add: dm map_of_eq_None_iff)
    then have "lb_p st k = None" by auto
    with None show ?thesis unfolding eq cap by (simp add: dget_def)
  next
    case (Some c)
    then show ?thesis unfolding eq cap by (simp add: dget_def)
  qed
qed


lemma set_sorted_set: "set (sorted_set xs) = set xs"
  by (simp add: sorted_set_def)

lemma map_of_fold_update:
  "map_of (fold (\<lambda>y c. AList.update (n, f, y) v c) ys cp) k =
     (if k \<in> (\<lambda>y. (n, f, y)) ` set ys then Some v else map_of cp k)"
  by (induction ys arbitrary: cp) (auto simp: update_conv')

lemma map_of_carry_nf:
  "map_of (carry_nf ys n f cp) k =
     (case map_of cp (n, f, 2030) of
        None \<Rightarrow> map_of cp k
      | Some v \<Rightarrow> if k \<in> (\<lambda>y. (n, f, y)) ` set ys then Some v else map_of cp k)"
  by (simp add: carry_nf_def map_of_fold_update split: option.splits)


lemma carry_nf_ref:
  "map_of c (n, f, 2030) = Some v \<Longrightarrow> map_of (carry_nf ys n' f' c) (n, f, 2030) = Some v"
  by (auto simp: map_of_carry_nf split: option.splits)

lemma carry_nf_keeps:
  "map_of c (n, f, 2030) = Some v \<Longrightarrow> carried ys n f v c \<Longrightarrow> carried ys n f v (carry_nf ys n' f' c)"
  by (auto simp: carried_def map_of_carry_nf split: option.splits)

lemma carry_nf_sets:
  "map_of c (n, f, 2030) = Some v \<Longrightarrow> carried ys n f v (carry_nf ys n f c)"
  by (auto simp: carried_def map_of_carry_nf split: option.splits)

lemma carry_fuels:
  "map_of c (n, f, 2030) = Some v \<Longrightarrow>
   map_of (fold (\<lambda>f' c'. carry_nf ys n' f' c') fs c) (n, f, 2030) = Some v
   \<and> (carried ys n f v c \<or> (n' = n \<and> f \<in> set fs)
        \<longrightarrow> carried ys n f v (fold (\<lambda>f' c'. carry_nf ys n' f' c') fs c))"
proof (induction fs arbitrary: c)
  case Nil
  then show ?case by simp
next
  case (Cons f' fs)
  have ref: "map_of (carry_nf ys n' f' c) (n, f, 2030) = Some v"
    by (rule carry_nf_ref[OF Cons.prems])
  note ih = Cons.IH[OF ref]
  show ?case
    using ih carry_nf_keeps[OF Cons.prems, of ys n' f'] carry_nf_sets[OF Cons.prems, of ys]
    by auto
qed

lemma carry_nodes:
  "map_of c (n, f, 2030) = Some v \<Longrightarrow>
   map_of (fold (\<lambda>n' c'. fold (\<lambda>f' c''. carry_nf ys n' f' c'') fs c') ns c) (n, f, 2030) = Some v
   \<and> (carried ys n f v c \<or> (n \<in> set ns \<and> f \<in> set fs)
        \<longrightarrow> carried ys n f v (fold (\<lambda>n' c'. fold (\<lambda>f' c''. carry_nf ys n' f' c'') fs c') ns c))"
proof (induction ns arbitrary: c)
  case Nil
  then show ?case by simp
next
  case (Cons n' ns)
  note st = carry_fuels[OF Cons.prems, of ys n' fs]
  note ih = Cons.IH[OF conjunct1[OF st]]
  show ?case using st ih by auto
qed

text \<open>
  Where the year domain does hold at least three years and 2030 (from timeseries.csv or
  consumption.csv), the pass of \<open>load_inputs\<close> does carry \<open>c_p(n,f,2030)\<close> to every year
  after the second.
\<close>

lemma carry_2030_final_correct:
  assumes "3 \<le> length final_y_values" and "2030 \<in> set final_y_values"
    and "map_of cp (n, f, 2030) = Some v" and "y \<in> set (drop 2 final_y_values)"
  shows "map_of (carry_2030_final final_y_values cp) (n, f, y) = Some v
         \<and> map_of (carry_2030_final final_y_values cp) (n, f, 2030) = Some v"
proof -
  from assms(3) have mem: "((n, f, 2030), v) \<in> set cp" by (rule map_of_SomeD)
  have n: "n \<in> set (sorted_set (map (\<lambda>k. fst k) (map fst cp)))"
    using mem by (force simp: set_sorted_set)
  have f: "f \<in> set (sorted_set (map (\<lambda>k. fst (snd k)) (map fst cp)))"
    using mem by (force simp: set_sorted_set)
  note r = carry_nodes[OF assms(3), of "drop 2 final_y_values"
      "sorted_set (map (\<lambda>k. fst (snd k)) (map fst cp))" "sorted_set (map (\<lambda>k. fst k) (map fst cp))"]
  show ?thesis
    using r n f assms(1,2,4)
    by (simp add: carry_2030_final_def Let_def carried_def)
qed





lemma strip_N1: "strip ''N1'' = ''N1''" "strip ''G'' = ''G''"
  by (simp_all add: strip_def is_space_def)

lemma prod_2030_state:
  "c_p (fold (prod_row_step [1]) prod_2030_rows prod_init) =
     [((''N1'', ''G'', 2025), 1), ((''N1'', ''G'', 2028), 2), ((''N1'', ''G'', 2030), 3),
      ((''N1'', ''G'', 2035), 4), ((''N1'', ''G'', 2040), 5)]"
  "p_y_values (fold (prod_row_step [1]) prod_2030_rows prod_init) = []"
  by (simp_all add: prod_2030_rows_def prod_row_step_def prod_hour_step_def prod_init_def
      strip_N1 to_float_def Let_def)

lemma prod_2030_extract:
  "c_p (extract_production_data prod_2030_table) =
     [((''N1'', ''G'', 2025), 1), ((''N1'', ''G'', 2028), 2), ((''N1'', ''G'', 2030), 3),
      ((''N1'', ''G'', 2035), 4), ((''N1'', ''G'', 2040), 5)]"
  "p_y_values (extract_production_data prod_2030_table) = []"
proof -
  have ne: "wrows prod_2030_table \<noteq> []"
    by (simp add: prod_2030_table_def prod_2030_rows_def)
  show "c_p (extract_production_data prod_2030_table) =
     [((''N1'', ''G'', 2025), 1), ((''N1'', ''G'', 2028), 2), ((''N1'', ''G'', 2030), 3),
      ((''N1'', ''G'', 2035), 4), ((''N1'', ''G'', 2040), 5)]"
    using ne
    by (simp add: extract_production_data_def Let_def prod_2030_table_def prod_2030_state
        carry_2030_extract_def sorted_set_def)
  show "p_y_values (extract_production_data prod_2030_table) = []"
    using ne
    by (simp add: extract_production_data_def Let_def prod_2030_table_def prod_2030_state
        sorted_set_def)
qed

text \<open>
  C3 at the failing input.  The production extractor never adds a row's year to its
  \<open>y_values\<close>, so \<open>y_prod\<close> is empty, the year domain of this scenario is empty, neither
  carry-forward pass runs, and \<open>c_p(N1,G,2035)\<close> and \<open>c_p(N1,G,2040)\<close> keep their own
  marginal costs 4 and 5 instead of \<open>c_p(N1,G,2030) = 3\<close>.
\<close>

theorem year_2030_carry_forward_fails:
  "fst (load_inputs_c_p [] empty_wide prod_2030_table) = []
   \<and> map_of (snd (load_inputs_c_p [] empty_wide prod_2030_table)) (''N1'', ''G'', 2030) = Some 3
   \<and> map_of (snd (load_inputs_c_p [] empty_wide prod_2030_table)) (''N1'', ''G'', 2035) = Some 4
   \<and> map_of (snd (load_inputs_c_p [] empty_wide prod_2030_table)) (''N1'', ''G'', 2040) = Some 5"
  by (simp add: load_inputs_c_p_def Let_def prod_2030_extract extract_time_domains_def
      consumption_y_values_def empty_wide_def sorted_set_def carry_2030_final_def)

section \<open>Regasification defaults and the 2025 rows\<close>
lemma fold_product:
  "fold (\<lambda>x s. fold (\<lambda>y. f (x, y)) ys s) xs s0 = fold f (List.product xs ys) s0"
  by (induction xs arbitrary: s0) (simp_all add: fold_map comp_def)
















section \<open>Arcs: scalar checks and self-repurposing\<close>
lemma fold_product3:
  "fold (\<lambda>a s. fold (\<lambda>e s. fold (\<lambda>y. g (a, e, y)) Y s) F s) A s0
     = fold g (List.product A (List.product F Y)) s0"
proof -
  have inner: "\<And>a s. fold (\<lambda>e s. fold (\<lambda>y. g (a, e, y)) Y s) F s
      = fold (\<lambda>p. g (a, p)) (List.product F Y) s"
    by (rule fold_product[of "\<lambda>p. g (a, p)" for a, simplified])
  show ?thesis unfolding inner by (rule fold_product)
qed

lemma zero_self_fields:
  "c_ar (fold zero_self ks st) k =
     (if k \<in> (\<lambda>(a, e, y). (a, e, e, y)) ` set ks then Some 0 else c_ar st k)"
  "f_ar (fold zero_self ks st) k =
     (if k \<in> (\<lambda>(a, e, y). (a, e, e, y)) ` set ks then Some 0 else f_ar st k)"
  by (induction ks arbitrary: st) (auto simp: zero_self_def)

lemma opp_default_keeps:
  "c_ar (opp_default_pass A st) = c_ar st" "f_ar (opp_default_pass A st) = f_ar st"
proof -
  have inner: "\<And>ai B s. c_ar (fold (\<lambda>ao s'. s'\<lparr>opp := setdefault (opp s') (ai, ao) 0\<rparr>) B s) = c_ar s
      \<and> f_ar (fold (\<lambda>ao s'. s'\<lparr>opp := setdefault (opp s') (ai, ao) 0\<rparr>) B s) = f_ar s"
    subgoal for ai B s by (induction B arbitrary: s) auto
    done
  have outer: "\<And>B C s. c_ar (fold (\<lambda>ai s.
            (let s = fold (\<lambda>ao s'. s'\<lparr>opp := setdefault (opp s') (ai, ao) 0\<rparr>) C s
             in s\<lparr>opp_map := setdefault (opp_map s) ai []\<rparr>)) B s) = c_ar s
      \<and> f_ar (fold (\<lambda>ai s.
            (let s = fold (\<lambda>ao s'. s'\<lparr>opp := setdefault (opp s') (ai, ao) 0\<rparr>) C s
             in s\<lparr>opp_map := setdefault (opp_map s) ai []\<rparr>)) B s) = f_ar s"
    subgoal for B C s by (induction B arbitrary: s) (auto simp: inner Let_def)
    done
  show "c_ar (opp_default_pass A st) = c_ar st" "f_ar (opp_default_pass A st) = f_ar st"
    by (simp_all add: opp_default_pass_def outer)
qed

lemma arc_finish_self_zero:
  assumes "a \<in> set A" "e \<in> set F" "y \<in> set Y"
  shows "c_ar (arc_finish A F Y st) (a, e, e, y) = Some 0"
    and "f_ar (arc_finish A F Y st) (a, e, e, y) = Some 0"
proof -
  have mem: "(a, e, e, y) \<in> (\<lambda>(a, e, y). (a, e, e, y)) ` set (List.product A (List.product F Y))"
    using assms by force
  show "c_ar (arc_finish A F Y st) (a, e, e, y) = Some 0"
    and "f_ar (arc_finish A F Y st) (a, e, e, y) = Some 0"
    using mem
    by (simp_all add: arc_finish_def opp_default_keeps zero_pass_def fold_product3 zero_self_fields)
qed

text \<open>
  C2.  In the result of \<open>_extract_arc_data\<close>, for every arc \<open>a\<close> of \<open>a_values\<close>, every
  fuel \<open>e\<close> of the final fuel domain (\<open>e_values\<close> joined with the fuels of the arcs) and
  every year \<open>y\<close>, \<open>c_ar(a,e,e,y)\<close> and \<open>f_ar(a,e,e,y)\<close> are present and 0.0, whatever
  the propagation passes did before.
\<close>

theorem self_repurposing_zero:
  assumes "extract_arc_data df_a dat_o y_values e_values vola2 loss_max = Inr (Ret16 A r nodes fuels)"
    and "a \<in> set A" and "e \<in> set (sorted_set (e_values @ fuels))" and "y \<in> set y_values"
  shows "c_ar r (a, e, e, y) = Some 0 \<and> f_ar r (a, e, e, y) = Some 0"
proof -
  define env where "env = arc_env_of df_a dat_o y_values e_values vola2 loss_max"
  from assms(1) have r: "r = arc_finish (env_a_values env) (env_all_fuels env) y_values (arc_build env)"
    and A: "A = env_a_values env" and fu: "fuels = sorted_set (map aw_f (env_work env))"
    by (auto simp: extract_arc_data_def Let_def env_def split: if_splits)
  have F: "set (env_all_fuels env) = set (sorted_set (e_values @ fuels))"
    by (simp add: env_def arc_env_of_def Let_def fu set_sorted_set)
  show ?thesis
    unfolding r
    using arc_finish_self_zero[of a "env_a_values env" e "env_all_fuels env" y y_values "arc_build env"]
      assms(2-4) A F
    by simp
qed

text \<open>
  C7 (as the code has it).  When the arcs table has at least one row, \<open>_extract_arc_data\<close>
  raises as soon as the first \<open>Pipe,Len,Std\<close> row of other.csv is missing or not positive,
  then as soon as the first \<open>YearStep\<close> row is missing or not positive; with both
  positive it returns its 16 values.
\<close>

theorem scalar_check_with_arcs:
  assumes "df_a \<noteq> []"
  shows "(o_value_of (dat_o_norm dat_o) ''pipe'' ''LEN'' ''STD'' 0 \<le> 0 \<longrightarrow>
            extract_arc_data df_a dat_o y_values e_values vola2 loss_max = Inl ValueError_PipeLenStd)
       \<and> (0 < o_value_of (dat_o_norm dat_o) ''pipe'' ''LEN'' ''STD'' 0
            \<and> o_value_of (dat_o_norm dat_o) ''yearstep'' [] [] 0 \<le> 0 \<longrightarrow>
            extract_arc_data df_a dat_o y_values e_values vola2 loss_max = Inl ValueError_YearStep)
       \<and> (0 < o_value_of (dat_o_norm dat_o) ''pipe'' ''LEN'' ''STD'' 0
            \<and> 0 < o_value_of (dat_o_norm dat_o) ''yearstep'' [] [] 0 \<longrightarrow>
            (\<exists>A r nodes fuels.
               extract_arc_data df_a dat_o y_values e_values vola2 loss_max = Inr (Ret16 A r nodes fuels)))"
  using assms by (simp add: extract_arc_data_def arc_env_of_def Let_def)

text \<open>
  C7 as stated fails: with an empty arcs table and an other.csv that defines neither
  scalar, \<open>_extract_arc_data\<close> returns through its guard \<open>if df_a.empty\<close> and raises no
  configuration error.
\<close>

theorem scalar_check_skipped_counterexample:
  "o_value_of (dat_o_norm []) ''pipe'' ''LEN'' ''STD'' 0 \<le> 0
   \<and> o_value_of (dat_o_norm []) ''yearstep'' [] [] 0 \<le> 0
   \<and> extract_arc_data [] [] [2025] [''G''] Map.empty 0 = Inr Ret15
   \<and> extract_arc_data [] [] [2025] [''G''] Map.empty 0 \<noteq> Inl ValueError_PipeLenStd
   \<and> extract_arc_data [] [] [2025] [''G''] Map.empty 0 \<noteq> Inl ValueError_YearStep"
  by (simp add: extract_arc_data_def o_value_of_def dat_o_norm_def)








lemma strip_ex2:
  "strip ''A1'' = ''A1''" "strip ''A2'' = ''A2''" "strip ''A3'' = ''A3''" "strip ''X'' = ''X''"
  "strip ''Y'' = ''Y''" "strip ''G'' = ''G''" "strip ''H'' = ''H''" "strip [] = []"
  "strip ''Pipe'' = ''Pipe''" "strip ''Len'' = ''Len''" "strip ''Std'' = ''Std''"
  "strip ''YearStep'' = ''YearStep''" "strip ''BFPipe'' = ''BFPipe''" "strip ''BIPipe'' = ''BIPipe''"
  "strip ''LEN'' = ''LEN''" "strip ''STD'' = ''STD''" "strip ''FIX'' = ''FIX''" "strip ''VAR'' = ''VAR''"
  by (simp_all add: strip_def is_space_def)

lemma other_rows_norm:
  "dat_o_norm other_rows =
     [\<lparr>oc_param = ''pipe'', oc_indx1 = ''LEN'', oc_indx2 = ''STD'', oc_value = 1\<rparr>,
      \<lparr>oc_param = ''yearstep'', oc_indx1 = [], oc_indx2 = [], oc_value = 1\<rparr>,
      \<lparr>oc_param = ''bfpipe'', oc_indx1 = [], oc_indx2 = [], oc_value = 1\<rparr>,
      \<lparr>oc_param = ''bipipe'', oc_indx1 = [], oc_indx2 = [], oc_value = 2\<rparr>]"
  by (simp add: other_rows_def o_line_def dat_o_norm_def strip_ex2 str_or_empty_def upper_def
      lower_def upper_char_def lower_char_def blank_token_def to_float_def)

lemma normalize_GH: "normalize_fuel_label ''G'' = ''G''" "normalize_fuel_label ''H'' = ''H''"
  by (simp_all add: normalize_fuel_label_def strip_ex2 upper_def upper_char_def Let_def)

lemma pair_work:
  "arc_work_rows pair_arcs =
     [\<lparr>aw_a = ''A1'', aw_start = ''X'', aw_end = ''Y'', aw_f = ''G'', aw_cap = 10, aw_len = 5,
       aw_off = 0, aw_cal_b = 0, aw_cal_c = 0, aw_cal_l = 0, aw_cal_r = 0, aw_cal_x = 0, aw_bidir = 1\<rparr>,
      \<lparr>aw_a = ''A2'', aw_start = ''Y'', aw_end = ''X'', aw_f = ''H'', aw_cap = 0, aw_len = 0,
       aw_off = 0, aw_cal_b = 0, aw_cal_c = 0, aw_cal_l = 0, aw_cal_r = 0, aw_cal_x = 0, aw_bidir = 0\<rparr>]"
  by (simp add: arc_work_rows_def pair_arcs_def arc_line_def arc_work_row_def strip_ex2 normalize_GH
      to_float_def)

lemma o_vals:
  "o_value_of (dat_o_norm other_rows) ''pipe'' ''LEN'' ''STD'' 0 = 1"
  "o_value_of (dat_o_norm other_rows) ''yearstep'' [] [] 0 = 1"
  "o_value_of (dat_o_norm other_rows) ''offshmult'' [] [] 0 = 0"
  "o_value_of (dat_o_norm other_rows) ''bfpipe'' [] [] 0 = 1"
  "o_value_of (dat_o_norm other_rows) ''bfpipe'' ''G'' [] 0 = 0"
  "o_value_of (dat_o_norm other_rows) ''bfpipe'' ''H'' [] 0 = 0"
  "o_value_of (dat_o_norm other_rows) ''blpipe'' [] [] 0 = 0"
  "o_value_of (dat_o_norm other_rows) ''blpipe'' ''G'' [] 0 = 0"
  "o_value_of (dat_o_norm other_rows) ''blpipe'' ''H'' [] 0 = 0"
  "o_value_of (dat_o_norm other_rows) ''bipipe'' [] [] 0 = 2"
  "o_value_of (dat_o_norm other_rows) ''bipipe'' ''G'' [] 0 = 0"
  "o_value_of (dat_o_norm other_rows) ''bipipe'' ''H'' [] 0 = 0"
  "o_value_of (dat_o_norm other_rows) ''bidir'' ''VAR'' [] 0 = 0"
  "o_value_of (dat_o_norm other_rows) ''bidir'' ''VAR'' ''G'' 0 = 0"
  "o_value_of (dat_o_norm other_rows) ''bidir'' ''VAR'' ''H'' 0 = 0"
  "o_value_of (dat_o_norm other_rows) ''bidir'' ''FIX'' [] 0 = 0"
  "o_value_of (dat_o_norm other_rows) ''repurparc'' ''FIX'' ''G'' 0 = 0"
  "o_value_of (dat_o_norm other_rows) ''repurparc'' ''FIX'' ''H'' 0 = 0"
  "o_value_of (dat_o_norm other_rows) ''repurparc'' [] [] 0 = 0"
  "o_value_of (dat_o_norm other_rows) ''repurparc'' e f 0 = 0"
  by (simp_all add: other_rows_norm o_value_of_def strip_ex2 upper_def lower_def upper_char_def
      lower_char_def)

lemma pair_env_eq:
  "pair_env = \<lparr>env_work = arc_work_rows pair_arcs, env_o = dat_o_norm other_rows,
      env_y_values = [2025], env_all_fuels = [''G'', ''H''], env_a_values = [''A1'', ''A2''],
      env_vola2 = Map.empty, env_loss_max = 0, env_offsh_mult = 0, env_pipe_len_std = 1,
      env_year_step = 1\<rparr>"
  unfolding pair_env_def arc_env_of_def Let_def o_vals
  by (simp add: pair_work sorted_set_def)



lemma pair_env_fields:
  "env_work pair_env = arc_work_rows pair_arcs" "env_o pair_env = dat_o_norm other_rows"
  "env_y_values pair_env = [2025]" "env_all_fuels pair_env = [''G'', ''H'']"
  "env_a_values pair_env = [''A1'', ''A2'']" "env_vola2 pair_env = Map.empty"
  "env_loss_max pair_env = 0" "env_offsh_mult pair_env = 0" "env_pipe_len_std pair_env = 1"
  "env_year_step pair_env = 1"
  by (simp_all add: pair_env_eq)



lemma pair_extract:
  "extract_arc_data pair_arcs other_rows [2025] [] Map.empty 0
     = Inr (Ret16 [''A1'', ''A2''] pair_result [''X'', ''Y''] [''G'', ''H''])"
proof -
  have ne: "pair_arcs \<noteq> []" by (simp add: pair_arcs_def)
  show ?thesis
    unfolding extract_arc_data_def pair_env_def[symmetric] Let_def pair_result_def
    using ne by (simp add: pair_env_fields pair_work sorted_set_def)
qed

theorem self_repurposing_zero_witness:
  "extract_arc_data pair_arcs other_rows [2025] [] Map.empty 0
     = Inr (Ret16 [''A1'', ''A2''] pair_result [''X'', ''Y''] [''G'', ''H''])
   \<and> ''A2'' \<in> set [''A1'', ''A2''] \<and> ''G'' \<in> set (sorted_set ([] @ [''G'', ''H'']))
   \<and> 2025 \<in> set [2025::int]
   \<and> c_ar pair_result (''A2'', ''G'', ''G'', 2025) = Some 0
   \<and> f_ar pair_result (''A2'', ''G'', ''G'', 2025) = Some 0"
proof -
  have a: "''A2'' \<in> set [''A1'', ''A2'']" by simp
  have e: "''G'' \<in> set (sorted_set ([] @ [''G'', ''H'']))" by (simp add: set_sorted_set)
  have y: "2025 \<in> set [2025::int]" by simp
  from self_repurposing_zero[OF pair_extract a e y] pair_extract a e y show ?thesis by blast
qed

theorem scalar_check_with_arcs_witness:
  "pair_arcs \<noteq> []
   \<and> o_value_of (dat_o_norm []) ''pipe'' ''LEN'' ''STD'' 0 \<le> 0
   \<and> extract_arc_data pair_arcs [] [2025] [] Map.empty 0 = Inl ValueError_PipeLenStd
   \<and> 0 < o_value_of (dat_o_norm [o_line ''Pipe'' ''Len'' ''Std'' 1]) ''pipe'' ''LEN'' ''STD'' 0
   \<and> o_value_of (dat_o_norm [o_line ''Pipe'' ''Len'' ''Std'' 1]) ''yearstep'' [] [] 0 \<le> 0
   \<and> extract_arc_data pair_arcs [o_line ''Pipe'' ''Len'' ''Std'' 1] [2025] [] Map.empty 0
       = Inl ValueError_YearStep
   \<and> 0 < o_value_of (dat_o_norm other_rows) ''pipe'' ''LEN'' ''STD'' 0
   \<and> 0 < o_value_of (dat_o_norm other_rows) ''yearstep'' [] [] 0
   \<and> (\<exists>A r nodes fuels.
        extract_arc_data pair_arcs other_rows [2025] [] Map.empty 0 = Inr (Ret16 A r nodes fuels))"
proof -
  have ne: "pair_arcs \<noteq> []" by (simp add: pair_arcs_def)
  have v0: "o_value_of (dat_o_norm []) ''pipe'' ''LEN'' ''STD'' 0 \<le> 0"
    by (simp add: dat_o_norm_def o_value_of_def)
  have v1: "0 < o_value_of (dat_o_norm [o_line ''Pipe'' ''Len'' ''Std'' 1]) ''pipe'' ''LEN'' ''STD'' 0"
    and v2: "o_value_of (dat_o_norm [o_line ''Pipe'' ''Len'' ''Std'' 1]) ''yearstep'' [] [] 0 \<le> 0"
    by (simp_all add: dat_o_norm_def o_line_def o_value_of_def strip_ex2 str_or_empty_def upper_def
        lower_def upper_char_def lower_char_def blank_token_def to_float_def)
  have v3: "0 < o_value_of (dat_o_norm other_rows) ''pipe'' ''LEN'' ''STD'' 0"
    and v4: "0 < o_value_of (dat_o_norm other_rows) ''yearstep'' [] [] 0"
    by (simp_all add: o_vals)
  note t0 = scalar_check_with_arcs[OF ne, of "[]" "[2025]" "[]" Map.empty 0]
    and t1 = scalar_check_with_arcs[OF ne, of "[o_line ''Pipe'' ''Len'' ''Std'' 1]" "[2025]" "[]" Map.empty 0]
    and t2 = scalar_check_with_arcs[OF ne, of other_rows "[2025]" "[]" Map.empty 0]
  from t0 v0 have r0: "extract_arc_data pair_arcs [] [2025] [] Map.empty 0 = Inl ValueError_PipeLenStd"
    by blast
  from t1 v1 v2 have r1: "extract_arc_data pair_arcs [o_line ''Pipe'' ''Len'' ''Std'' 1] [2025] [] Map.empty 0
       = Inl ValueError_YearStep"
    by blast
  from t2 v3 v4 have r2: "\<exists>A r nodes fuels.
        extract_arc_data pair_arcs other_rows [2025] [] Map.empty 0 = Inr (Ret16 A r nodes fuels)"
    by blast
  from ne v0 r0 v1 v2 r1 v3 v4 r2 show ?thesis by blast
qed

section \<open>Arcs: propagation to the opposite arc\<close>
lemma opp_prop_copy [simp]: "opp (prop_copy q st) = opp st"
  by (cases q) (simp add: prop_copy_def)

lemma opp_prop_step [simp]: "opp (prop_step q st) = opp st"
  by (simp add: prop_step_def)




lemma dget_None: "m k = None \<Longrightarrow> dget m k d = d"
  by (simp add: dget_def)













lemma uniq_opp_step: "uniq_opp A (prop_step q st) ai ao = uniq_opp A st ai ao"
  by (simp add: uniq_opp_def)












































































section \<open>Regasification: the final domains\<close>




section \<open>The compiled model\<close>

lemma over2D: "over2 A B P \<Longrightarrow> a \<in> set A \<Longrightarrow> b \<in> set B \<Longrightarrow> P a b"
  by (simp add: over2_def)

lemma over3D: "over3 A B C P \<Longrightarrow> a \<in> set A \<Longrightarrow> b \<in> set B \<Longrightarrow> c \<in> set C \<Longrightarrow> P a b c"
  by (simp add: over3_def)

lemma over4D:
  "over4 A B C D P \<Longrightarrow> a \<in> set A \<Longrightarrow> b \<in> set B \<Longrightarrow> c \<in> set C \<Longrightarrow> d \<in> set D \<Longrightarrow> P a b c d"
  by (simp add: over4_def)

lemma first_y_hd: "mm_Y mm \<noteq> [] \<Longrightarrow> first_y mm = Some (hd (mm_Y mm))"
  by (cases "mm_Y mm") (simp_all add: first_y_def)

lemma hd_in_Y: "mm_Y mm \<noteq> [] \<Longrightarrow> hd (mm_Y mm) \<in> set (mm_Y mm)"
  by simp

lemma loaded_build [simp]:
  "loaded (build_base_model_with_cz li zv ev nv av yv hv) = li"
  by (simp add: build_base_model_with_cz_def Let_def)

text \<open>
  C6.  Let \<open>mm\<close> be the model that \<open>build_base_model_with_cz\<close> builds from any inputs and
  keyword arguments, with at least one year, and \<open>v\<close> an assignment that satisfies it.
  Then at the first year \<open>Y[0]\<close>, for every arc \<open>a\<close> and all fuels \<open>e\<close> and \<open>f\<close> of the
  model, \<open>K_A(a,e,Y[0])\<close> is the parameter \<open>cap_a(a,e,Y[0])\<close> (the loaded value, 0.0 when
  missing), and \<open>B_AR(a,e,f,Y[0]) = 0\<close> and \<open>K_RA(a,e,f,Y[0]) = 0\<close>.
\<close>

theorem first_year_fixity:
  assumes mm: "mm = build_base_model_with_cz loaded_inputs z_values e_values node_values arc_values
                      y_values h_values"
    and feas: "feasible mm v"
    and a: "a \<in> set (mm_A mm)" and e: "e \<in> set (mm_E mm)" and f: "f \<in> set (mm_E mm)"
    and Y: "mm_Y mm \<noteq> []"
  shows "K_A v (a, e, hd (mm_Y mm)) = dget (loaded_cap_a loaded_inputs) (a, e, hd (mm_Y mm)) 0
       \<and> K_A v (a, e, hd (mm_Y mm)) = mm_cap_a mm (a, e, hd (mm_Y mm))
       \<and> B_AR v (a, e, f, hd (mm_Y mm)) = 0
       \<and> K_RA v (a, e, f, hd (mm_Y mm)) = 0"
proof -
  from feas have c: "constraints_hold mm v" by (simp add: feasible_def)
  note y = hd_in_Y[OF Y]
  note fy = first_y_hd[OF Y]
  from c have "over3 (mm_A mm) (mm_E mm) (mm_Y mm) (\<lambda>a e y. holds (k_a_init mm v a e y))"
    by (simp add: constraints_hold_def)
  from over3D[OF this a e y] have k: "K_A v (a, e, hd (mm_Y mm)) = mm_cap_a mm (a, e, hd (mm_Y mm))"
    by (simp add: k_a_init_def only_first_def fy)
  from c have "over4 (mm_A mm) (mm_E mm) (mm_E mm) (mm_Y mm) (\<lambda>a e f y. holds (b_ar_fix_first mm v a e f y))"
    by (simp add: constraints_hold_def)
  from over4D[OF this a e f y] have b: "B_AR v (a, e, f, hd (mm_Y mm)) = 0"
    by (simp add: b_ar_fix_first_def only_first_def fy)
  from c have "over4 (mm_A mm) (mm_E mm) (mm_E mm) (mm_Y mm) (\<lambda>a e f y. holds (k_ra_fix_first mm v a e f y))"
    by (simp add: constraints_hold_def)
  from over4D[OF this a e f y] have r: "K_RA v (a, e, f, hd (mm_Y mm)) = 0"
    by (simp add: k_ra_fix_first_def only_first_def fy)
  have p: "mm_cap_a mm (a, e, hd (mm_Y mm)) = dget (loaded_cap_a loaded_inputs) (a, e, hd (mm_Y mm)) 0"
    by (simp add: mm_cap_a_def mm)
  from k b r p show ?thesis by simp
qed

text \<open>
  C9.  Let \<open>mm\<close> be a built model whose fuel domain contains \<open>G\<close>, and \<open>v\<close> an assignment
  that satisfies it.  For every node \<open>n\<close> with \<open>h2_ready(n,G) \<le> 0\<close> (0.0 when missing) and
  every year \<open>y\<close> of the model, \<open>K_W(n,G,y)\<close> is the parameter \<open>cap_ww(n,G,y)\<close>.
\<close>

theorem gas_storage_pinned:
  assumes mm: "mm = build_base_model_with_cz loaded_inputs z_values e_values node_values arc_values
                      y_values h_values"
    and feas: "feasible mm v"
    and n: "n \<in> set (mm_N mm)" and y: "y \<in> set (mm_Y mm)"
    and G: "''G'' \<in> set (mm_E mm)"
    and h2: "dget (loaded_h2_ready loaded_inputs) (n, ''G'') 0 \<le> 0"
  shows "K_W v (n, ''G'', y) = dget (loaded_cap_ww loaded_inputs) (n, ''G'', y) 0
       \<and> K_W v (n, ''G'', y) = mm_cap_ww mm (n, ''G'', y)"
proof -
  from feas have "over2 (mm_N mm) (mm_Y mm) (\<lambda>n y. holds (k_w_fix_h2_ready mm v n y))"
    by (simp add: feasible_def constraints_hold_def)
  from over2D[OF this n y] have "holds (k_w_fix_h2_ready mm v n y)" .
  moreover have "mm_h2_ready mm (n, ''G'') \<le> 0" using h2 by (simp add: mm_h2_ready_def mm)
  ultimately have "K_W v (n, ''G'', y) = mm_cap_ww mm (n, ''G'', y)"
    using G by (simp add: k_w_fix_h2_ready_def)
  then show ?thesis by (simp add: mm_cap_ww_def mm)
qed
lemmas param_defs =
  mm_c_z_def mm_c_bl_def mm_ub_bl_def mm_vola2_def mm_vols2_def mm_bigM_def mm_yearstep_def
  mm_discRate_def mm_lossMax_def mm_r_def mm_EOH_def mm_ypred_def mm_yscai_def mm_scaleUp_def
  mm_n_in_c_def mm_n_in_2_def mm_n_in_r_def mm_a_s_def mm_a_e_def mm_opp_def mm_is_bid_def
  mm_opp_arc_def mm_is_h_def mm_is_g_def mm_not_h_def mm_not_g_def mm_dmd2_def mm_cap_p_def
  mm_c_p_def mm_lb_p_def mm_c_lr_def mm_ub_r_def mm_cap_a_def mm_c_a_def mm_c_ax_def
  mm_c_ab_def mm_f_ab_def mm_c_ar_def mm_f_ar_def mm_e_a_def mm_cap_we_def mm_cap_wi_def
  mm_cap_ww_def mm_c_we_def mm_e_w_def mm_h2_ready_def

lemmas rule_defs =
  p_cap_def p_min_def r_cap_def k_a_init_def k_w_init_def ar_cap_def wr_cap_def a_lim_def
  a_opp1_def a_opp2_def k_bd_fix_is_bid_def bd_cost_def bd_fix_is_bid_def bidir_def sos_a_def
  sos_w_def b_ar_fix_first_def k_ra_fix_first_def b_wr_fix_first_def k_rw_fix_first_def
  k_w_fix_h2_ready_def bil_a1_def bil_w1_def bil_a2_def bil_w2_def w_extr_cap_def
  w_inj_cap_def dmd_n3_def qs_zero_nonh_def zd2_zero_nonh_def qb_fix_type_def qb_fix_cap_def
  qb_fix_same_def max_bl_def dmd_n2_def mb_node_def w_lim_def w_cyc_def only_first_def
  not_first_def

lemmas order_defs = ypreds_def y_pos_def y_last_def first_y_def z_dmd_def

text \<open>Only \<open>dmd_n3\<close>, \<open>qs_zero_nonh\<close> and \<open>zd2_zero_nonh\<close> read the demand.\<close>

lemma rules_without_dmd:
  "p_cap (mm\<lparr>loaded := (loaded mm)\<lparr>loaded_dmd := d\<rparr>\<rparr>) = p_cap mm"
  "p_min (mm\<lparr>loaded := (loaded mm)\<lparr>loaded_dmd := d\<rparr>\<rparr>) = p_min mm"
  "r_cap (mm\<lparr>loaded := (loaded mm)\<lparr>loaded_dmd := d\<rparr>\<rparr>) = r_cap mm"
  "k_a_init (mm\<lparr>loaded := (loaded mm)\<lparr>loaded_dmd := d\<rparr>\<rparr>) = k_a_init mm"
  "k_w_init (mm\<lparr>loaded := (loaded mm)\<lparr>loaded_dmd := d\<rparr>\<rparr>) = k_w_init mm"
  "ar_cap (mm\<lparr>loaded := (loaded mm)\<lparr>loaded_dmd := d\<rparr>\<rparr>) = ar_cap mm"
  "wr_cap (mm\<lparr>loaded := (loaded mm)\<lparr>loaded_dmd := d\<rparr>\<rparr>) = wr_cap mm"
  "a_lim (mm\<lparr>loaded := (loaded mm)\<lparr>loaded_dmd := d\<rparr>\<rparr>) = a_lim mm"
  "a_opp1 (mm\<lparr>loaded := (loaded mm)\<lparr>loaded_dmd := d\<rparr>\<rparr>) = a_opp1 mm"
  "a_opp2 (mm\<lparr>loaded := (loaded mm)\<lparr>loaded_dmd := d\<rparr>\<rparr>) = a_opp2 mm"
  "k_bd_fix_is_bid (mm\<lparr>loaded := (loaded mm)\<lparr>loaded_dmd := d\<rparr>\<rparr>) = k_bd_fix_is_bid mm"
  "bd_cost (mm\<lparr>loaded := (loaded mm)\<lparr>loaded_dmd := d\<rparr>\<rparr>) = bd_cost mm"
  "bd_fix_is_bid (mm\<lparr>loaded := (loaded mm)\<lparr>loaded_dmd := d\<rparr>\<rparr>) = bd_fix_is_bid mm"
  "bidir (mm\<lparr>loaded := (loaded mm)\<lparr>loaded_dmd := d\<rparr>\<rparr>) = bidir mm"
  "sos_a (mm\<lparr>loaded := (loaded mm)\<lparr>loaded_dmd := d\<rparr>\<rparr>) = sos_a mm"
  "sos_w (mm\<lparr>loaded := (loaded mm)\<lparr>loaded_dmd := d\<rparr>\<rparr>) = sos_w mm"
  "b_ar_fix_first (mm\<lparr>loaded := (loaded mm)\<lparr>loaded_dmd := d\<rparr>\<rparr>) = b_ar_fix_first mm"
  "k_ra_fix_first (mm\<lparr>loaded := (loaded mm)\<lparr>loaded_dmd := d\<rparr>\<rparr>) = k_ra_fix_first mm"
  "b_wr_fix_first (mm\<lparr>loaded := (loaded mm)\<lparr>loaded_dmd := d\<rparr>\<rparr>) = b_wr_fix_first mm"
  "k_rw_fix_first (mm\<lparr>loaded := (loaded mm)\<lparr>loaded_dmd := d\<rparr>\<rparr>) = k_rw_fix_first mm"
  "k_w_fix_h2_ready (mm\<lparr>loaded := (loaded mm)\<lparr>loaded_dmd := d\<rparr>\<rparr>) = k_w_fix_h2_ready mm"
  "bil_a1 (mm\<lparr>loaded := (loaded mm)\<lparr>loaded_dmd := d\<rparr>\<rparr>) = bil_a1 mm"
  "bil_w1 (mm\<lparr>loaded := (loaded mm)\<lparr>loaded_dmd := d\<rparr>\<rparr>) = bil_w1 mm"
  "bil_a2 (mm\<lparr>loaded := (loaded mm)\<lparr>loaded_dmd := d\<rparr>\<rparr>) = bil_a2 mm"
  "bil_w2 (mm\<lparr>loaded := (loaded mm)\<lparr>loaded_dmd := d\<rparr>\<rparr>) = bil_w2 mm"
  "w_extr_cap (mm\<lparr>loaded := (loaded mm)\<lparr>loaded_dmd := d\<rparr>\<rparr>) = w_extr_cap mm"
  "w_inj_cap (mm\<lparr>loaded := (loaded mm)\<lparr>loaded_dmd := d\<rparr>\<rparr>) = w_inj_cap mm"
  "qb_fix_type (mm\<lparr>loaded := (loaded mm)\<lparr>loaded_dmd := d\<rparr>\<rparr>) = qb_fix_type mm"
  "qb_fix_cap (mm\<lparr>loaded := (loaded mm)\<lparr>loaded_dmd := d\<rparr>\<rparr>) = qb_fix_cap mm"
  "qb_fix_same (mm\<lparr>loaded := (loaded mm)\<lparr>loaded_dmd := d\<rparr>\<rparr>) = qb_fix_same mm"
  "max_bl (mm\<lparr>loaded := (loaded mm)\<lparr>loaded_dmd := d\<rparr>\<rparr>) = max_bl mm"
  "dmd_n2 (mm\<lparr>loaded := (loaded mm)\<lparr>loaded_dmd := d\<rparr>\<rparr>) = dmd_n2 mm"
  "mb_node (mm\<lparr>loaded := (loaded mm)\<lparr>loaded_dmd := d\<rparr>\<rparr>) = mb_node mm"
  "w_lim (mm\<lparr>loaded := (loaded mm)\<lparr>loaded_dmd := d\<rparr>\<rparr>) = w_lim mm"
  "w_cyc (mm\<lparr>loaded := (loaded mm)\<lparr>loaded_dmd := d\<rparr>\<rparr>) = w_cyc mm"
  "tc_link_con (mm\<lparr>loaded := (loaded mm)\<lparr>loaded_dmd := d\<rparr>\<rparr>) = tc_link_con mm"
  by (simp_all add: fun_eq_iff rule_defs order_defs tc_link_con_def obj_total_cost_def param_defs
      cong: option.case_cong list.case_cong)

lemma feasible_without_dmd:
  assumes Z: "mm_Z mm = []"
    and sign: "\<forall>k. (0 < dget d k 0) = (0 < dget (loaded_dmd (loaded mm)) k 0)"
  shows "feasible (mm\<lparr>loaded := (loaded mm)\<lparr>loaded_dmd := d\<rparr>\<rparr>) v = feasible mm v"
proof -
  have z: "z_dmd (mm\<lparr>loaded := (loaded mm)\<lparr>loaded_dmd := d\<rparr>\<rparr>) = None" "z_dmd mm = None"
    using Z by (simp_all add: z_dmd_def)
  have d3: "dmd_n3 (mm\<lparr>loaded := (loaded mm)\<lparr>loaded_dmd := d\<rparr>\<rparr>) = dmd_n3 mm"
    and zd: "zd2_zero_nonh (mm\<lparr>loaded := (loaded mm)\<lparr>loaded_dmd := d\<rparr>\<rparr>) = zd2_zero_nonh mm"
    by (simp_all add: fun_eq_iff dmd_n3_def zd2_zero_nonh_def z)
  have s: "(0 < mm_dmd (mm\<lparr>loaded := (loaded mm)\<lparr>loaded_dmd := d\<rparr>\<rparr>) k) = (0 < mm_dmd mm k)" for k
    using spec[OF sign, of k] by (simp add: mm_dmd_def)
  have qs: "qs_zero_nonh (mm\<lparr>loaded := (loaded mm)\<lparr>loaded_dmd := d\<rparr>\<rparr>) = qs_zero_nonh mm"
    by (simp add: fun_eq_iff qs_zero_nonh_def s) (simp add: mm_not_h_def)
  have sets: "mm_Z (mm\<lparr>loaded := (loaded mm)\<lparr>loaded_dmd := d\<rparr>\<rparr>) = mm_Z mm" "mm_E (mm\<lparr>loaded := (loaded mm)\<lparr>loaded_dmd := d\<rparr>\<rparr>) = mm_E mm" "mm_N (mm\<lparr>loaded := (loaded mm)\<lparr>loaded_dmd := d\<rparr>\<rparr>) = mm_N mm"
    "mm_NUTS2 (mm\<lparr>loaded := (loaded mm)\<lparr>loaded_dmd := d\<rparr>\<rparr>) = mm_NUTS2 mm" "mm_A (mm\<lparr>loaded := (loaded mm)\<lparr>loaded_dmd := d\<rparr>\<rparr>) = mm_A mm" "mm_Y (mm\<lparr>loaded := (loaded mm)\<lparr>loaded_dmd := d\<rparr>\<rparr>) = mm_Y mm" "mm_H (mm\<lparr>loaded := (loaded mm)\<lparr>loaded_dmd := d\<rparr>\<rparr>) = mm_H mm"
    by simp_all
  have c: "constraints_hold (mm\<lparr>loaded := (loaded mm)\<lparr>loaded_dmd := d\<rparr>\<rparr>) v = constraints_hold mm v"
    by (simp only: constraints_hold_def rules_without_dmd d3 zd qs sets)
  have vd: "var_domains (mm\<lparr>loaded := (loaded mm)\<lparr>loaded_dmd := d\<rparr>\<rparr>) v = var_domains mm v"
    by (simp only: var_domains_def sets)
  show ?thesis by (simp only: feasible_def c vd)
qed

lemma build_with_dmd:
  "build_base_model_with_cz (li\<lparr>loaded_dmd := d\<rparr>) zv ev nv av yv hv
     = (build_base_model_with_cz li zv ev nv av yv hv)
         \<lparr>loaded := (loaded (build_base_model_with_cz li zv ev nv av yv hv))\<lparr>loaded_dmd := d\<rparr>\<rparr>"
  by (cases yv; cases hv) (simp_all add: build_base_model_with_cz_def Let_def)

lemma sorted_hd_Min: "sorted xs \<Longrightarrow> xs \<noteq> [] \<Longrightarrow> hd xs = Min (set xs)"
  by (cases xs) (auto intro!: Min_eqI[symmetric])

lemma sorted_sorted_set: "sorted (sorted_set xs)"
  by (simp add: sorted_set_def)

lemma sorted_clean_list: "sorted (clean_list vs)"
  by (cases vs) (simp_all add: clean_list_def sorted_sorted_set)

lemma sorted_Z:
  "sorted (mm_Z (build_base_model_with_cz li zv ev nv av yv hv))"
  by (simp add: build_base_model_with_cz_def Let_def or_list_def sorted_clean_list sorted_sorted_set)

text \<open>
  C10.  In a built model \<open>mm\<close>, the class \<open>z_dmd\<close> is \<open>ZD2\<close> when \<open>ZD2\<close> is in \<open>Z\<close>, else the
  least element of \<open>Z\<close> (the first in Python's order of strings), and there is none exactly
  when \<open>Z\<close> is empty.  With a class \<open>z\<close>, the rule \<open>dmd_n3\<close> of a non-hydrogen cell with
  positive demand is \<open>Q_S(n,e,y,h) = dmd(n,e,y,h) - ZDS(z,n,e,y,h)\<close>.  With \<open>Z\<close> empty,
  \<open>dmd_n3\<close> and \<open>zd2_zero_nonh\<close> are skipped at every index, and the assignments that
  satisfy the model stay the same when the demand is replaced by any other that is
  positive in the same cells: no constraint ties \<open>Q_S\<close> to the size of a positive
  demand.
\<close>

theorem demand_slack_class:
  assumes mm: "mm = build_base_model_with_cz loaded_inputs z_values e_values node_values arc_values
                      y_values h_values"
  shows "z_dmd mm = (if ''ZD2'' \<in> set (mm_Z mm) then Some ''ZD2''
                     else if mm_Z mm = [] then None else Some (Min (set (mm_Z mm))))
       \<and> (\<forall>z. z_dmd mm = Some z \<and> mm_not_h mm e = 1 \<and> 0 < mm_dmd mm (n, e, y, h) \<longrightarrow>
              z \<in> set (mm_Z mm)
              \<and> dmd_n3 mm v n e y h
                  = Eq_con (Q_S v (n, e, y, h)) (mm_dmd mm (n, e, y, h) - ZDS v (z, n, e, y, h)))
       \<and> (mm_Z mm = [] \<longrightarrow> dmd_n3 mm v n e y h = Skip \<and> zd2_zero_nonh mm v n e y h = Skip)
       \<and> (mm_Z mm = [] \<and> (\<forall>k. (0 < dget d k 0) = (0 < dget (loaded_dmd loaded_inputs) k 0)) \<longrightarrow>
            feasible (build_base_model_with_cz (loaded_inputs\<lparr>loaded_dmd := d\<rparr>) z_values e_values
                        node_values arc_values y_values h_values) v
              = feasible mm v)"
proof -
  have srt: "sorted (mm_Z mm)" unfolding mm by (rule sorted_Z)
  have p1: "z_dmd mm = (if ''ZD2'' \<in> set (mm_Z mm) then Some ''ZD2''
                     else if mm_Z mm = [] then None else Some (Min (set (mm_Z mm))))"
  proof (cases "mm_Z mm")
    case Nil
    then show ?thesis by (simp add: z_dmd_def)
  next
    case (Cons z zs)
    with sorted_hd_Min[OF srt] have m: "Min (set (mm_Z mm)) = z" by simp
    show ?thesis unfolding z_dmd_def m by (simp add: Cons)
  qed
  have p2: "\<forall>z. z_dmd mm = Some z \<and> mm_not_h mm e = 1 \<and> 0 < mm_dmd mm (n, e, y, h) \<longrightarrow>
              z \<in> set (mm_Z mm)
              \<and> dmd_n3 mm v n e y h
                  = Eq_con (Q_S v (n, e, y, h)) (mm_dmd mm (n, e, y, h) - ZDS v (z, n, e, y, h))"
  proof (intro allI impI, elim conjE)
    fix z assume z: "z_dmd mm = Some z" and nh: "mm_not_h mm e = 1" and pos: "0 < mm_dmd mm (n, e, y, h)"
    from z have "z \<in> set (mm_Z mm)"
      by (cases "mm_Z mm") (auto simp: z_dmd_def split: if_splits)
    moreover from z nh pos have "dmd_n3 mm v n e y h
        = Eq_con (Q_S v (n, e, y, h)) (mm_dmd mm (n, e, y, h) - ZDS v (z, n, e, y, h))"
      by (simp add: dmd_n3_def)
    ultimately show "z \<in> set (mm_Z mm)
              \<and> dmd_n3 mm v n e y h
                  = Eq_con (Q_S v (n, e, y, h)) (mm_dmd mm (n, e, y, h) - ZDS v (z, n, e, y, h))" ..
  qed
  have p3: "mm_Z mm = [] \<longrightarrow> dmd_n3 mm v n e y h = Skip \<and> zd2_zero_nonh mm v n e y h = Skip"
    by (simp add: dmd_n3_def zd2_zero_nonh_def z_dmd_def)
  have p4: "mm_Z mm = [] \<and> (\<forall>k. (0 < dget d k 0) = (0 < dget (loaded_dmd loaded_inputs) k 0)) \<longrightarrow>
            feasible (build_base_model_with_cz (loaded_inputs\<lparr>loaded_dmd := d\<rparr>) z_values e_values
                        node_values arc_values y_values h_values) v
              = feasible mm v"
  proof (intro impI, elim conjE)
    assume Z: "mm_Z mm = []"
      and sign: "\<forall>k. (0 < dget d k 0) = (0 < dget (loaded_dmd loaded_inputs) k 0)"
    have l: "loaded mm = loaded_inputs" by (simp add: mm)
    have sign': "\<forall>k. (0 < dget d k 0) = (0 < dget (loaded_dmd (loaded mm)) k 0)"
      unfolding l by (rule sign)
    show "feasible (build_base_model_with_cz (loaded_inputs\<lparr>loaded_dmd := d\<rparr>) z_values e_values
                        node_values arc_values y_values h_values) v
              = feasible mm v"
      unfolding build_with_dmd mm[symmetric] by (rule feasible_without_dmd[OF Z sign'])
  qed
  from p1 p2 p3 p4 show ?thesis by (intro conjI)
qed

lemma demo_strings:
  "strip ''N1'' = ''N1''" "strip ''N2'' = ''N2''" "strip ''G'' = ''G''" "strip ''A1'' = ''A1''"
  "strip ''ZX'' = ''ZX''" "strip ''ZA'' = ''ZA''"
  "lower ''N1'' = ''n1''" "lower ''N2'' = ''n2''" "lower ''G'' = ''g''" "lower ''A1'' = ''a1''"
  "lower ''ZX'' = ''zx''" "lower ''ZA'' = ''za''" "upper ''G'' = ''G''"
  by (simp_all add: strip_def is_space_def lower_def lower_char_def upper_def upper_char_def)

lemma demo_sets:
  "mm_Z demo_model = []" "mm_E demo_model = [''G'']" "mm_N demo_model = [''N1'', ''N2'']"
  "mm_CN demo_model = []" "mm_NUTS2 demo_model = []" "mm_RGN demo_model = []"
  "mm_A demo_model = [''A1'']" "mm_Y demo_model = [2025, 2030]" "mm_H demo_model = [1]"
  "loaded demo_model = demo_inputs"
  by (simp_all add: demo_model_def build_base_model_with_cz_def Let_def clean_list_def or_list_def
      sorted_set_def demo_strings demo_inputs_def)

lemma demo_years:
  "first_y demo_model = Some 2025" "z_dmd demo_model = None"
  "ypreds demo_model 2025 = []" "ypreds demo_model 2030 = [2025]"
  "mm_yscai demo_model (2025, 2025) = 1" "mm_yscai demo_model (2030, 2025) = 1"
  "mm_yscai demo_model (2025, 2030) = 0" "mm_yscai demo_model (2030, 2030) = 1"
  by (simp_all add: first_y_def z_dmd_def ypreds_def mm_ypred_def mm_yscai_def y_pos_def demo_sets)

lemma demo_params:
  "mm_cap_p demo_model k = 0" "mm_lb_p demo_model k = 0" "mm_ub_r demo_model p = 0"
  "mm_cap_a demo_model (a, e, y) = (if a = ''A1'' \<and> e = ''G'' \<and> (y = 2025 \<or> y = 2030) then 10 else 0)"
  "mm_cap_ww demo_model (n, e, y) = (if n = ''N1'' \<and> e = ''G'' \<and> (y = 2025 \<or> y = 2030) then 3 else 0)"
  "mm_h2_ready demo_model p = 0" "mm_is_bid demo_model a = 0" "mm_bigM demo_model = 100"
  "mm_opp demo_model p = 0" "mm_cap_we demo_model k3 = 0" "mm_cap_wi demo_model k3 = 0"
  "mm_not_h demo_model ''G'' = 1" "mm_is_h demo_model ''G'' = 0"
  "mm_dmd demo_model (n, e, y, h) = (if n = ''N1'' \<and> e = ''G'' \<and> y = 2025 \<and> h = 1 then 5 else 0)"
  "mm_c_p demo_model k3 = 0" "mm_c_z demo_model p = 0" "mm_c_ax demo_model k3 = 0"
  "mm_f_ab demo_model q = 0" "mm_c_ab demo_model k3 = 0" "mm_f_ar demo_model k4 = 0"
  "mm_c_ar demo_model k4 = 0" "mm_c_a demo_model k3 = 0" "mm_c_bl demo_model p = 0"
  by (simp_all add: param_defs mm_dmd_def demo_sets dget_def demo_strings demo_inputs_def)

lemma demo_domains: "var_domains demo_model demo_assignment"
  unfolding var_domains_def demo_sets
  by (simp add: over2_def over3_def over4_def over5_def demo_assignment_def)

lemma demo_objective: "obj_total_cost demo_model demo_assignment = 0"
  unfolding obj_total_cost_def demo_sets demo_years
  by (simp add: demo_params) (simp add: demo_assignment_def)

lemma demo_constraints: "constraints_hold demo_model demo_assignment"
  unfolding constraints_hold_def demo_sets
  apply (intro conjI)
  apply (simp_all add: over2_def over3_def over4_def over5_def rule_defs tc_link_con_def
      demo_objective demo_sets demo_years demo_params)
  apply (simp_all add: demo_assignment_def)
  done

lemma demo_feasible: "feasible demo_model demo_assignment"
  by (simp add: feasible_def demo_domains demo_constraints)
theorem first_year_fixity_witness:
  "feasible demo_model demo_assignment
   \<and> ''A1'' \<in> set (mm_A demo_model) \<and> ''G'' \<in> set (mm_E demo_model)
   \<and> mm_Y demo_model = [2025, 2030]
   \<and> K_A demo_assignment (''A1'', ''G'', 2025) = 10
   \<and> dget (loaded_cap_a demo_inputs) (''A1'', ''G'', 2025) 0 = 10
   \<and> B_AR demo_assignment (''A1'', ''G'', ''G'', 2025) = 0
   \<and> K_RA demo_assignment (''A1'', ''G'', ''G'', 2025) = 0"
proof -
  have a: "''A1'' \<in> set (mm_A demo_model)" and e: "''G'' \<in> set (mm_E demo_model)"
    and Y: "mm_Y demo_model \<noteq> []" and hd: "hd (mm_Y demo_model) = 2025"
    by (simp_all add: demo_sets)
  note t = first_year_fixity[OF demo_model_def demo_feasible a e e Y, unfolded hd]
  have c: "dget (loaded_cap_a demo_inputs) (''A1'', ''G'', 2025) 0 = 10"
    by (simp add: demo_inputs_def dget_def)
  from t c demo_feasible a e show ?thesis by (simp add: demo_sets)
qed

theorem gas_storage_pinned_witness:
  "feasible demo_model demo_assignment
   \<and> ''N1'' \<in> set (mm_N demo_model) \<and> 2030 \<in> set (mm_Y demo_model) \<and> ''G'' \<in> set (mm_E demo_model)
   \<and> dget (loaded_h2_ready demo_inputs) (''N1'', ''G'') 0 \<le> 0
   \<and> K_W demo_assignment (''N1'', ''G'', 2030) = 3
   \<and> dget (loaded_cap_ww demo_inputs) (''N1'', ''G'', 2030) 0 = 3"
proof -
  have n: "''N1'' \<in> set (mm_N demo_model)" and y: "2030 \<in> set (mm_Y demo_model)"
    and G: "''G'' \<in> set (mm_E demo_model)"
    by (simp_all add: demo_sets)
  have h2: "dget (loaded_h2_ready demo_inputs) (''N1'', ''G'') 0 \<le> 0"
    by (simp add: demo_inputs_def dget_def)
  have c: "dget (loaded_cap_ww demo_inputs) (''N1'', ''G'', 2030) 0 = 3"
    by (simp add: demo_inputs_def dget_def)
  note t = gas_storage_pinned[OF demo_model_def demo_feasible n y G h2]
  from t c demo_feasible n y G h2 show ?thesis by simp
qed

lemma demo_z_sets:
  "mm_Z demo_model_z = [''ZA'', ''ZX'']" "loaded demo_model_z = demo_inputs"
  by (simp_all add: demo_model_z_def build_base_model_with_cz_def Let_def clean_list_def or_list_def
      sorted_set_def demo_strings)

theorem demand_slack_class_witness:
  "mm_Z demo_model_z = [''ZA'', ''ZX''] \<and> z_dmd demo_model_z = Some ''ZA''
   \<and> mm_not_h demo_model_z ''G'' = 1 \<and> mm_dmd demo_model_z (''N1'', ''G'', 2025, 1) = 5
   \<and> dmd_n3 demo_model_z demo_assignment ''N1'' ''G'' 2025 1
        = Eq_con (Q_S demo_assignment (''N1'', ''G'', 2025, 1))
            (5 - ZDS demo_assignment (''ZA'', ''N1'', ''G'', 2025, 1))
   \<and> mm_Z demo_model = [] \<and> z_dmd demo_model = None
   \<and> dmd_n3 demo_model demo_assignment ''N1'' ''G'' 2025 1 = Skip
   \<and> zd2_zero_nonh demo_model demo_assignment ''N1'' ''G'' 2025 1 = Skip
   \<and> mm_dmd demo_model (''N1'', ''G'', 2025, 1) = 5
   \<and> Q_S demo_assignment (''N1'', ''G'', 2025, 1) = 0
   \<and> feasible demo_model demo_assignment
   \<and> feasible (build_base_model_with_cz (demo_inputs\<lparr>loaded_dmd := [(''N1'', ''G'', 2025, 1) \<mapsto> 7]\<rparr>)
                 None None None None None None) demo_assignment"
proof -
  note tz = demand_slack_class[OF demo_model_z_def,
      where e = "''G''" and n = "''N1''" and y = 2025 and h = 1 and v = demo_assignment
        and d = "loaded_dmd demo_inputs"]
  note t0 = demand_slack_class[OF demo_model_def,
      where e = "''G''" and n = "''N1''" and y = 2025 and h = 1 and v = demo_assignment
        and d = "[(''N1'', ''G'', 2025, 1) \<mapsto> 7]"]
  have m: "Min (set [''ZA'', ''ZX'']) = ''ZA''" by simp
  have zz: "z_dmd demo_model_z = Some ''ZA''"
    using conjunct1[OF tz] by (simp add: demo_z_sets m)
  have nh: "mm_not_h demo_model_z ''G'' = 1"
    and dz: "mm_dmd demo_model_z (''N1'', ''G'', 2025, 1) = 5"
    by (simp_all add: mm_not_h_def mm_dmd_def demo_z_sets demo_strings)
       (simp add: demo_inputs_def dget_def)
  from conjunct1[OF conjunct2[OF tz]] zz nh dz
  have d3: "dmd_n3 demo_model_z demo_assignment ''N1'' ''G'' 2025 1
        = Eq_con (Q_S demo_assignment (''N1'', ''G'', 2025, 1))
            (5 - ZDS demo_assignment (''ZA'', ''N1'', ''G'', 2025, 1))"
    by simp
  have Z0: "mm_Z demo_model = []" by (simp add: demo_sets)
  have z0: "z_dmd demo_model = None" using conjunct1[OF t0] by (simp add: Z0)
  from conjunct1[OF conjunct2[OF conjunct2[OF t0]]] Z0
  have sk: "dmd_n3 demo_model demo_assignment ''N1'' ''G'' 2025 1 = Skip"
    "zd2_zero_nonh demo_model demo_assignment ''N1'' ''G'' 2025 1 = Skip"
    by simp_all
  have sign: "\<forall>k. (0 < dget [(''N1'', ''G'', 2025, 1) \<mapsto> 7::real] k 0)
                  = (0 < dget (loaded_dmd demo_inputs) k 0)"
    by (simp add: demo_inputs_def dget_def)
  from conjunct2[OF conjunct2[OF conjunct2[OF t0]]] Z0 sign demo_feasible
  have f7: "feasible (build_base_model_with_cz (demo_inputs\<lparr>loaded_dmd := [(''N1'', ''G'', 2025, 1) \<mapsto> 7]\<rparr>)
                 None None None None None None) demo_assignment"
    by blast
  have d0: "mm_dmd demo_model (''N1'', ''G'', 2025, 1) = 5" by (simp add: demo_params)
  have q: "Q_S demo_assignment (''N1'', ''G'', 2025, 1) = 0" by (simp add: demo_assignment_def)
  from demo_z_sets(1) zz nh dz d3 Z0 z0 sk d0 q demo_feasible f7 show ?thesis by (intro conjI)
qed

end
